theory Spec2Isabelle
  imports Main "HOL-Library.Word"
begin

text \<open>
  A model of \<open>index.tsx\<close>, the script of a page that asks an image-generation
  service for an image and keeps a history of results. The module-level variables
  and the properties of the page elements the script touches form one record; each
  function of the script is a function on that record; what the script reads from
  its surroundings is a second record; calls that leave the script are recorded in
  the order they are made.
\<close>

section \<open>JavaScript strings\<close>

text \<open>
  A JavaScript string is a sequence of UTF-16 code units. String literals of the
  source are ASCII and are embedded with \<open>lit\<close>.
\<close>

type_synonym jschar = "16 word"
type_synonym jsstring = "jschar list"

definition lit :: "string \<Rightarrow> jsstring" where
  "lit s = map of_char s"

text \<open>A string is truthy exactly when it is not empty (\<open>if (s)\<close>, \<open>!s\<close>).\<close>

definition truthy :: "jsstring \<Rightarrow> bool" where
  "truthy s = (s \<noteq> [])"

text \<open>
  \<open>String.prototype.trim\<close> strips the code units of ECMAScript's WhiteSpace and
  LineTerminator productions from both ends.
\<close>

definition isWhiteSpace :: "jschar \<Rightarrow> bool" where
  "isWhiteSpace c =
     (c \<in> set [0x0009, 0x000A, 0x000B, 0x000C, 0x000D, 0x0020, 0x00A0, 0x1680,
                0x2000, 0x2001, 0x2002, 0x2003, 0x2004, 0x2005, 0x2006, 0x2007,
                0x2008, 0x2009, 0x200A, 0x2028, 0x2029, 0x202F, 0x205F, 0x3000,
                0xFEFF])"

definition trim :: "jsstring \<Rightarrow> jsstring" where
  "trim s = rev (dropWhile isWhiteSpace (rev (dropWhile isWhiteSpace s)))"

text \<open>\<open>s.includes(sub)\<close>: \<open>sub\<close> occurs in \<open>s\<close> as a contiguous run.\<close>

fun startsWith :: "jsstring \<Rightarrow> jsstring \<Rightarrow> bool" where
  "startsWith s [] = True"
| "startsWith [] (c # sub) = False"
| "startsWith (d # s) (c # sub) = (d = c \<and> startsWith s sub)"

fun includes_str :: "jsstring \<Rightarrow> jsstring \<Rightarrow> bool" where
  "includes_str [] sub = (sub = [])"
| "includes_str (d # s) sub = (startsWith (d # s) sub \<or> includes_str s sub)"

text \<open>
  Template-literal conversion of an integral number below \<open>10\<^sup>2\<^sup>1\<close> in magnitude, as
  timestamps are (\<open>${item.timestamp}\<close>): its decimal digits, with a minus sign
  below zero.
\<close>

definition digitChar :: "nat \<Rightarrow> jschar" where
  "digitChar d = of_nat (48 + d)"

function decimalDigits :: "nat \<Rightarrow> jsstring" where
  "decimalDigits n =
     (if n < 10 then [digitChar n] else decimalDigits (n div 10) @ [digitChar (n mod 10)])"
  by pat_completeness auto
termination
  by (relation "measure id") auto

declare decimalDigits.simps [simp del]

definition numberToString :: "int \<Rightarrow> jsstring" where
  "numberToString n =
     (if n < 0 then lit ''-'' @ decimalDigits (nat (- n)) else decimalDigits (nat n))"

section \<open>Page state\<close>

datatype image_size = Size_1K | Size_2K | Size_4K

datatype aspect_ratio = Ratio_1_1 | Ratio_3_4 | Ratio_4_3 | Ratio_9_16 | Ratio_16_9

text \<open>An element of \<open>imageHistory\<close>: \<open>{ url, prompt, timestamp }\<close>.\<close>

datatype history_entry =
  HistoryEntry (entry_url: jsstring) (entry_prompt: jsstring) (entry_timestamp: int)

text \<open>The \<open>style.display\<close> values the script assigns; \<open>DisplayInitial\<close> is the
  value of the page before the script touches it.\<close>

datatype display = DisplayInitial | DisplayNone | DisplayBlock

text \<open>The status line is written either through \<open>innerText\<close> or through \<open>innerHTML\<close>.\<close>

datatype status_content = InnerText jsstring | InnerHTML jsstring

text \<open>One row built by \<open>renderImageHistory\<close>: the thumbnail, the prompt paragraph
  and the arguments its download button passes to \<open>handleDownload\<close>.\<close>

datatype history_item =
  HistoryItem (img_src: jsstring) (img_alt: jsstring) (p_innerText: jsstring)
    (download_url: jsstring) (download_filename: jsstring)

datatype thrown = Error jsstring | NotAnError

text \<open>What the script does to the outside world, in the order it does it: the request
  to the image API, the call of \<open>window.aistudio.openSelectKey\<close>, the call of
  \<open>apiKeyInputEl.focus\<close>, a line on the console, and the click on a download
  anchor.\<close>

datatype effect =
    GenerateImages jsstring jsstring image_size aspect_ratio
  | OpenSelectKey
  | FocusApiKeyInput
  | ConsoleError jsstring
  | AnchorClick jsstring jsstring

text \<open>
  \<open>localStorage\<close>: the stored items, and whether \<open>getItem\<close> and \<open>setItem\<close>
  throw (storage disabled, quota exhausted).
\<close>

record storage =
  items :: "jsstring \<rightharpoonup> jsstring"
  getItem_throws :: bool
  setItem_throws :: bool

record page =
  prompt :: jsstring
  imageSize :: image_size
  aspectRatio :: aspect_ratio
  downloadLink :: "jsstring option"
  imageHistory :: "history_entry list"
  userApiKey :: jsstring
  useCustomApiKey :: bool
  statusEl :: status_content
  outputImage_src :: jsstring
  outputImage_display :: display
  downloadButton_display :: display
  loadingSpinner_display :: display
  imageHistorySection_display :: display
  historyContainerEl :: "history_item list"
  generateButton_disabled :: bool
  promptEl_disabled :: bool
  imageSizeSelectEl_disabled :: bool
  aspectRatioSelectEl_disabled :: bool
  downloadButton_disabled :: bool
  clearHistoryButton_disabled :: bool
  useCustomApiKeyCheckbox_disabled :: bool
  useCustomApiKeyCheckbox_checked :: bool
  apiKeyInputEl_disabled :: bool
  apiKeyInputEl_value :: jsstring
  apiKeyInputEl_classList :: "string list"
  localStorage :: storage
  effects :: "effect list"

section \<open>The hosting environment\<close>

datatype api_response = Rejects thrown | Resolves "jsstring list option"

text \<open>
  What the script reads from outside: \<open>process.env.API_KEY\<close>; the outcome of
  \<open>window.aistudio.openSelectKey()\<close>, \<open>None\<close> where the page has no such
  function; the outcome of \<open>ai.models.generateImages\<close> for the request made (the
  \<open>generatedImages\<close> of a response, each image given by its \<open>image.imageBytes\<close>);
  \<open>String.prototype.toLowerCase\<close>; \<open>Date.now()\<close>; \<open>JSON.stringify\<close> and
  \<open>JSON.parse\<close> at the type of the history; and \<open>JSON.parse\<close> at the type of
  the toggle.
\<close>

record env =
  API_KEY :: "jsstring option"
  openSelectKey :: "(thrown + unit) option"
  generateImages :: "jsstring \<Rightarrow> jsstring \<Rightarrow> image_size \<Rightarrow> aspect_ratio \<Rightarrow> api_response"
  toLowerCase :: "jsstring \<Rightarrow> jsstring"
  Date_now :: int
  JSON_stringify :: "history_entry list \<Rightarrow> jsstring"
  JSON_parse :: "jsstring \<Rightarrow> thrown + history_entry list"
  JSON_parse_flag :: "jsstring \<Rightarrow> thrown + bool"

section \<open>Status line and controls\<close>

text \<open>The markup \<open>showStatusError\<close> writes for a message.\<close>

definition errorSpan :: "jsstring \<Rightarrow> status_content" where
  \<open>errorSpan message = InnerHTML (lit ''<span class="text-red-400">'' @ message @ lit ''</span>'')\<close>

definition showStatusError :: "jsstring \<Rightarrow> page \<Rightarrow> page" where
  "showStatusError message s = s\<lparr>statusEl := errorSpan message\<rparr>"

definition log_effect :: "effect \<Rightarrow> page \<Rightarrow> page" where
  "log_effect e s = s\<lparr>effects := effects s @ [e]\<rparr>"

definition setControlsDisabled :: "bool \<Rightarrow> page \<Rightarrow> page" where
  "setControlsDisabled disabled s =
     s\<lparr>generateButton_disabled := disabled,
       promptEl_disabled := disabled,
       imageSizeSelectEl_disabled := disabled,
       aspectRatioSelectEl_disabled := disabled,
       downloadButton_disabled := disabled,
       clearHistoryButton_disabled := disabled,
       useCustomApiKeyCheckbox_disabled := disabled,
       apiKeyInputEl_disabled := (disabled \<or> \<not> useCustomApiKey s),
       loadingSpinner_display := (if disabled then DisplayBlock else DisplayNone)\<rparr>"

text \<open>\<open>classList.add\<close> and \<open>classList.remove\<close> on the token list of an element.\<close>

fun classList_add :: "string list \<Rightarrow> string list \<Rightarrow> string list" where
  "classList_add [] cl = cl"
| "classList_add (t # ts) cl = classList_add ts (if t \<in> set cl then cl else cl @ [t])"

definition classList_remove :: "string list \<Rightarrow> string list \<Rightarrow> string list" where
  "classList_remove ts cl = filter (\<lambda>c. c \<notin> set ts) cl"

definition highlight :: "string list" where
  "highlight = [''border-red-500'', ''ring-red-500'']"

definition highlightApiKeyInput :: "page \<Rightarrow> page" where
  "highlightApiKeyInput s =
     s\<lparr>apiKeyInputEl_classList := classList_add highlight (apiKeyInputEl_classList s)\<rparr>"

definition clearApiKeyHighlight :: "page \<Rightarrow> page" where
  "clearApiKeyHighlight s =
     s\<lparr>apiKeyInputEl_classList := classList_remove highlight (apiKeyInputEl_classList s)\<rparr>"

definition highlighted :: "page \<Rightarrow> bool" where
  "highlighted s = (set highlight \<subseteq> set (apiKeyInputEl_classList s))"

definition openApiKeyDialog :: "env \<Rightarrow> page \<Rightarrow> (thrown + unit) \<times> page" where
  "openApiKeyDialog e s =
     (case openSelectKey e of
        Some outcome \<Rightarrow> (outcome, log_effect OpenSelectKey s)
      | None \<Rightarrow>
          (Inr (), showStatusError
             (lit ''API key selection is not available. Please configure the API_KEY environment variable.'')
             s))"

definition handleDownload :: "jsstring \<Rightarrow> jsstring \<Rightarrow> page \<Rightarrow> page" where
  "handleDownload u filename s =
     (if truthy u then log_effect (AnchorClick u filename) s
      else showStatusError (lit ''No image available for download.'') s)"

section \<open>History\<close>

definition IMAGE_HISTORY_KEY :: jsstring where
  "IMAGE_HISTORY_KEY = lit ''imagen_image_history''"

definition loadHistory :: "env \<Rightarrow> page \<Rightarrow> page" where
  "loadHistory e s =
     (if getItem_throws (localStorage s)
      then (log_effect (ConsoleError (lit ''Failed to load image history from local storage:'')) s)
             \<lparr>imageHistory := []\<rparr>
      else (case items (localStorage s) IMAGE_HISTORY_KEY of
              None \<Rightarrow> s
            | Some storedHistory \<Rightarrow>
                if truthy storedHistory
                then (case JSON_parse e storedHistory of
                        Inr h \<Rightarrow> s\<lparr>imageHistory := h\<rparr>
                      | Inl err \<Rightarrow>
                          (log_effect
                             (ConsoleError (lit ''Failed to load image history from local storage:'')) s)
                            \<lparr>imageHistory := []\<rparr>)
                else s))"

definition saveHistory :: "env \<Rightarrow> page \<Rightarrow> page" where
  "saveHistory e s =
     (if setItem_throws (localStorage s)
      then log_effect (ConsoleError (lit ''Failed to save image history to local storage:'')) s
      else s\<lparr>localStorage := (localStorage s)
               \<lparr>items := (items (localStorage s))
                  (IMAGE_HISTORY_KEY \<mapsto> JSON_stringify e (imageHistory s))\<rparr>\<rparr>)"

definition renderItem :: "history_entry \<Rightarrow> history_item" where
  "renderItem item =
     HistoryItem (entry_url item) (entry_prompt item) (entry_prompt item) (entry_url item)
       (lit ''generated-image-'' @ numberToString (entry_timestamp item) @ lit ''.jpeg'')"

text \<open>The loop \<open>for (let i = imageHistory.length - 1; i >= 0; i--)\<close>, with \<open>n = i + 1\<close>
  and the children appended so far.\<close>

fun renderLoop :: "history_entry list \<Rightarrow> nat \<Rightarrow> history_item list \<Rightarrow> history_item list" where
  "renderLoop h 0 children = children"
| "renderLoop h (Suc i) children = renderLoop h i (children @ [renderItem (h ! i)])"

definition renderImageHistory :: "page \<Rightarrow> page" where
  "renderImageHistory s =
     (if length (imageHistory s) = 0
      then s\<lparr>historyContainerEl := [], imageHistorySection_display := DisplayNone\<rparr>
      else s\<lparr>historyContainerEl := renderLoop (imageHistory s) (length (imageHistory s)) [],
             imageHistorySection_display := DisplayBlock\<rparr>)"

definition addImageToHistory :: "env \<Rightarrow> jsstring \<Rightarrow> jsstring \<Rightarrow> page \<Rightarrow> page" where
  "addImageToHistory e u p s =
     renderImageHistory
       (saveHistory e (s\<lparr>imageHistory := imageHistory s @ [HistoryEntry u p (Date_now e)]\<rparr>))"

definition clearImageHistory :: "env \<Rightarrow> page \<Rightarrow> page" where
  "clearImageHistory e s = renderImageHistory (saveHistory e (s\<lparr>imageHistory := []\<rparr>))"

section \<open>Generation\<close>

definition generateImage ::
  "env \<Rightarrow> jsstring \<Rightarrow> jsstring \<Rightarrow> image_size \<Rightarrow> aspect_ratio \<Rightarrow> page \<Rightarrow> (thrown + unit) \<times> page" where
  "generateImage e p apiKey sz ratio s =
     (let s1 = log_effect (GenerateImages p apiKey sz ratio) s in
      case generateImages e p apiKey sz ratio of
        Rejects t \<Rightarrow> (Inl t, s1)
      | Resolves images \<Rightarrow>
          (case images of
             None \<Rightarrow>
               (Inl (Error (lit ''No images were generated. The prompt may have been blocked.'')), s1)
           | Some [] \<Rightarrow>
               (Inl (Error (lit ''No images were generated. The prompt may have been blocked.'')), s1)
           | Some (base64ImageBytes # others) \<Rightarrow>
               (let imageUrl = lit ''data:image/jpeg;base64,'' @ base64ImageBytes in
                (Inr (), s1\<lparr>outputImage_src := imageUrl,
                            outputImage_display := DisplayBlock,
                            downloadButton_display := DisplayBlock,
                            downloadLink := Some imageUrl\<rparr>))))"

text \<open>The first statements of \<open>generate\<close> (lines 299 to 308): the key to use, and
  whether it is the custom one.\<close>

definition resolveActiveKey :: "env \<Rightarrow> page \<Rightarrow> jsstring option \<times> bool" where
  "resolveActiveKey e s =
     (if useCustomApiKey s \<and> truthy (trim (userApiKey s))
      then (Some (trim (userApiKey s)), True)
      else (API_KEY e, False))"

text \<open>\<open>!activeApiKey\<close> on a value that is a string or \<open>undefined\<close>.\<close>

definition keyMissing :: "jsstring option \<Rightarrow> bool" where
  "keyMissing k = (case k of None \<Rightarrow> True | Some v \<Rightarrow> \<not> truthy v)"

text \<open>The body of the \<open>catch\<close> clause (lines 339 to 381): the message of what was
  thrown, the message shown for it with the flag \<open>shouldOpenDialog\<close>, and what is
  done with them.\<close>

definition errorMessageOf :: "thrown \<Rightarrow> jsstring" where
  "errorMessageOf t =
     (case t of Error m \<Rightarrow> m | NotAnError \<Rightarrow> lit ''An unknown error occurred.'')"

definition classifyError :: "env \<Rightarrow> bool \<Rightarrow> jsstring \<Rightarrow> jsstring \<times> bool" where
  "classifyError e isUsingCustomKey errorMessage =
     (if includes_str errorMessage (lit ''You exceeded your current quota'')
      then (lit ''Quota exceeded. Please check your billing details on Google AI Studio.'', True)
      else if includes_str errorMessage (lit ''Requested entity was not found.'')
      then (lit ''Model not found. This can be caused by an invalid API key or permission issues. Please check your API key.'', True)
      else if includes_str errorMessage (lit ''API_KEY_INVALID'')
            \<or> includes_str errorMessage (lit ''API key not valid'')
            \<or> includes_str (toLowerCase e errorMessage) (lit ''permission denied'')
      then (if isUsingCustomKey
            then lit ''The custom API key you provided is invalid or lacks necessary permissions. Please check the key in the input field.''
            else lit ''The API key managed by AI Studio is invalid or lacks necessary permissions. Please use the \"Add your API Key\" button to select a valid key.'',
            True)
      else (lit ''Error: '' @ errorMessage, False))"

definition handleFailure :: "env \<Rightarrow> bool \<Rightarrow> thrown \<Rightarrow> page \<Rightarrow> (thrown + unit) \<times> page" where
  "handleFailure e isUsingCustomKey t s =
     (let s1 = log_effect (ConsoleError (lit ''Image generation failed:'')) s;
          errorMessage = errorMessageOf t;
          (userFriendlyMessage, shouldOpenDialog) = classifyError e isUsingCustomKey errorMessage;
          s2 = showStatusError userFriendlyMessage s1
      in if shouldOpenDialog \<and> \<not> isUsingCustomKey then openApiKeyDialog e s2
         else if isUsingCustomKey
         then (Inr (), highlightApiKeyInput (log_effect FocusApiKeyInput s2))
         else (Inr (), s2))"

text \<open>The statements between the key check and the \<open>try\<close> (lines 328 to 332).\<close>

definition beginRequest :: "page \<Rightarrow> page" where
  "beginRequest s =
     setControlsDisabled True
       (s\<lparr>statusEl := InnerText (lit ''Generating image...''),
          outputImage_display := DisplayNone,
          downloadButton_display := DisplayNone,
          downloadLink := None\<rparr>)"

text \<open>
  The \<open>try\<close> and \<open>catch\<close> clauses of \<open>generate\<close>. Like \<open>generate\<close> it returns
  the page it leaves and how it completes: \<open>Inr ()\<close> normally, \<open>Inl t\<close> when \<open>t\<close>
  is thrown out of it (only a rejected \<open>openSelectKey\<close> inside the \<open>catch\<close> clause
  does that).
\<close>

definition tryGenerate :: "env \<Rightarrow> jsstring \<Rightarrow> bool \<Rightarrow> page \<Rightarrow> (thrown + unit) \<times> page" where
  "tryGenerate e activeApiKey isUsingCustomKey s =
     (case generateImage e (prompt s) activeApiKey (imageSize s) (aspectRatio s) s of
        (Inr u, s1) \<Rightarrow> (Inr (), s1\<lparr>statusEl := InnerText (lit ''Image generated successfully.'')\<rparr>)
      | (Inl t, s1) \<Rightarrow> handleFailure e isUsingCustomKey t s1)"

text \<open>The branch of \<open>generate\<close> taken when \<open>!activeApiKey\<close> holds (lines 310 to
  322).\<close>

definition noApiKey :: "env \<Rightarrow> bool \<Rightarrow> page \<Rightarrow> (thrown + unit) \<times> page" where
  "noApiKey e isUsingCustomKey s =
     (let s1 = showStatusError
                 (lit ''No API key configured. Please enter your API key or use the \"Add your API Key\" button.'') s
      in if \<not> isUsingCustomKey then openApiKeyDialog e s1
         else (Inr (), highlightApiKeyInput (log_effect FocusApiKeyInput s1)))"

text \<open>\<open>generate\<close> as a whole. The \<open>finally\<close> clause runs however the \<open>try\<close>
  statement completes. No other listener runs between the start of a request and
  its end, the controls being disabled.\<close>

definition generate :: "env \<Rightarrow> page \<Rightarrow> (thrown + unit) \<times> page" where
  "generate e s =
     (let (activeApiKey, isUsingCustomKey) = resolveActiveKey e s in
      case (if keyMissing activeApiKey then None else activeApiKey) of
        None \<Rightarrow> noApiKey e isUsingCustomKey s
      | Some key \<Rightarrow>
          (let (r, s1) = tryGenerate e key isUsingCustomKey (beginRequest (clearApiKeyHighlight s))
           in (r, setControlsDisabled False s1)))"

section \<open>Event listeners\<close>

text \<open>The listeners return the page as it is once the work they start has run.\<close>

definition generateButton_click :: "env \<Rightarrow> page \<Rightarrow> page" where
  "generateButton_click e s =
     (if \<not> truthy (trim (prompt s))
      then showStatusError (lit ''Please enter a prompt to generate an image.'') s
      else snd (generate e s))"

definition downloadButton_click :: "page \<Rightarrow> page" where
  "downloadButton_click s =
     (case downloadLink s of
        Some link \<Rightarrow>
          if truthy link then handleDownload link (lit ''generated-image.jpeg'') s
          else showStatusError (lit ''No image available for download.'') s
      | None \<Rightarrow> showStatusError (lit ''No image available for download.'') s)"

definition clearHistoryButton_click :: "env \<Rightarrow> page \<Rightarrow> page" where
  "clearHistoryButton_click e s =
     showStatusError (lit ''Image history cleared.'') (clearImageHistory e s)"

section \<open>Custom key settings\<close>

definition CUSTOM_API_KEY_STORAGE_KEY :: jsstring where
  "CUSTOM_API_KEY_STORAGE_KEY = lit ''imagen_custom_api_key''"

definition USE_CUSTOM_KEY_STORAGE_KEY :: jsstring where
  "USE_CUSTOM_KEY_STORAGE_KEY = lit ''imagen_use_custom_api_key''"

text \<open>\<open>JSON.stringify\<close> of a boolean.\<close>

definition stringifyFlag :: "bool \<Rightarrow> jsstring" where
  "stringifyFlag b = (if b then lit ''true'' else lit ''false'')"

definition saveCustomApiKeySettings :: "page \<Rightarrow> page" where
  "saveCustomApiKeySettings s =
     (if setItem_throws (localStorage s)
      then log_effect
             (ConsoleError (lit ''Failed to save custom API key settings to local storage:'')) s
      else s\<lparr>localStorage := (localStorage s)
               \<lparr>items := (items (localStorage s))
                  (CUSTOM_API_KEY_STORAGE_KEY \<mapsto> userApiKey s,
                   USE_CUSTOM_KEY_STORAGE_KEY \<mapsto> stringifyFlag (useCustomApiKey s))\<rparr>\<rparr>)"

text \<open>The \<open>catch\<close> clause of \<open>loadCustomApiKeySettings\<close>.\<close>

definition resetCustomApiKeySettings :: "page \<Rightarrow> page" where
  "resetCustomApiKeySettings s =
     (log_effect
        (ConsoleError (lit ''Failed to load custom API key settings from local storage:'')) s)
       \<lparr>userApiKey := [], useCustomApiKey := False, apiKeyInputEl_value := [],
        useCustomApiKeyCheckbox_checked := False, apiKeyInputEl_disabled := True\<rparr>"

definition loadCustomApiKeySettings :: "env \<Rightarrow> page \<Rightarrow> page" where
  "loadCustomApiKeySettings e s =
     (if getItem_throws (localStorage s) then resetCustomApiKeySettings s
      else
        (let s1 = (case items (localStorage s) CUSTOM_API_KEY_STORAGE_KEY of
                     None \<Rightarrow> s
                   | Some storedCustomKey \<Rightarrow>
                       if truthy storedCustomKey
                       then s\<lparr>userApiKey := storedCustomKey, apiKeyInputEl_value := storedCustomKey\<rparr>
                       else s)
         in case items (localStorage s) USE_CUSTOM_KEY_STORAGE_KEY of
              None \<Rightarrow> s1\<lparr>apiKeyInputEl_disabled := True\<rparr>
            | Some storedUseCustomKey \<Rightarrow>
                (case JSON_parse_flag e storedUseCustomKey of
                   Inl err \<Rightarrow> resetCustomApiKeySettings s1
                 | Inr b \<Rightarrow>
                     s1\<lparr>useCustomApiKey := b, useCustomApiKeyCheckbox_checked := b,
                        apiKeyInputEl_disabled := (\<not> b)\<rparr>)))"

text \<open>The listeners of the key input and of the toggle, given what the user typed
  or ticked.\<close>

definition apiKeyInputEl_input :: "jsstring \<Rightarrow> page \<Rightarrow> page" where
  "apiKeyInputEl_input v s =
     clearApiKeyHighlight
       (saveCustomApiKeySettings (s\<lparr>apiKeyInputEl_value := v, userApiKey := v\<rparr>))"

definition useCustomApiKeyCheckbox_change :: "bool \<Rightarrow> page \<Rightarrow> page" where
  "useCustomApiKeyCheckbox_change checked s =
     clearApiKeyHighlight
       (saveCustomApiKeySettings
          (s\<lparr>useCustomApiKeyCheckbox_checked := checked, useCustomApiKey := checked,
             apiKeyInputEl_disabled := (\<not> checked)\<rparr>))"

text \<open>The statements the script runs when it is loaded.\<close>

definition initialize :: "env \<Rightarrow> page \<Rightarrow> page" where
  "initialize e s = loadCustomApiKeySettings e (renderImageHistory (loadHistory e s))"

text \<open>Outside a request the key input is enabled exactly when the toggle is on.\<close>

definition keyInputFollowsToggle :: "page \<Rightarrow> bool" where
  "keyInputFollowsToggle s = (apiKeyInputEl_disabled s = (\<not> useCustomApiKey s))"

section \<open>A JSON codec for histories\<close>

text \<open>
  \<open>JSON.stringify\<close> and \<open>JSON.parse\<close> belong to the language, not to the script,
  and the functions above take them from the environment. This section gives one
  instance: the text ECMAScript's \<open>JSON.stringify\<close> produces for an array of
  \<open>{ url, prompt, timestamp }\<close> objects with integral timestamps, and a reader of
  such texts. The reader accepts no white space and no other order of the keys,
  so it rejects texts that \<open>JSON.parse\<close> accepts; it is used only on texts
  written by \<open>stringifyHistory\<close>. Likewise \<open>parseFlag\<close> reads the two texts
  that \<open>stringifyFlag\<close> writes.
\<close>

definition hexDigit :: "nat \<Rightarrow> jschar" where
  "hexDigit d = (if d < 10 then of_nat (48 + d) else of_nat (87 + d))"

definition unicodeEscape :: "jschar \<Rightarrow> jsstring" where
  "unicodeEscape c =
     [0x5C, 0x75, hexDigit (unat c div 4096), hexDigit (unat c div 256 mod 16),
      hexDigit (unat c div 16 mod 16), hexDigit (unat c mod 16)]"

definition isHighSurrogate :: "jschar \<Rightarrow> bool" where
  "isHighSurrogate c = (0xD800 \<le> c \<and> c \<le> 0xDBFF)"

definition isLowSurrogate :: "jschar \<Rightarrow> bool" where
  "isLowSurrogate c = (0xDC00 \<le> c \<and> c \<le> 0xDFFF)"

text \<open>QuoteJSONString on one code unit that is not part of a surrogate pair.\<close>

definition escapeUnit :: "jschar \<Rightarrow> jsstring" where
  "escapeUnit c =
     (if c = 0x22 then [0x5C, 0x22]
      else if c = 0x5C then [0x5C, 0x5C]
      else if c = 0x08 then [0x5C, 0x62]
      else if c = 0x0C then [0x5C, 0x66]
      else if c = 0x0A then [0x5C, 0x6E]
      else if c = 0x0D then [0x5C, 0x72]
      else if c = 0x09 then [0x5C, 0x74]
      else if c < 0x20 \<or> isHighSurrogate c \<or> isLowSurrogate c then unicodeEscape c
      else [c])"

fun escapeJSON :: "jsstring \<Rightarrow> jsstring" where
  "escapeJSON [] = []"
| "escapeJSON [c] = escapeUnit c"
| "escapeJSON (c # d # ds) =
     (if isHighSurrogate c \<and> isLowSurrogate d then c # d # escapeJSON ds
      else escapeUnit c @ escapeJSON (d # ds))"

definition quoteJSONString :: "jsstring \<Rightarrow> jsstring" where
  "quoteJSONString v = [0x22] @ escapeJSON v @ [0x22]"

definition stringifyEntry :: "history_entry \<Rightarrow> jsstring" where
  \<open>stringifyEntry x =
     lit ''{"url":'' @ quoteJSONString (entry_url x)
     @ lit '',"prompt":'' @ quoteJSONString (entry_prompt x)
     @ lit '',"timestamp":'' @ numberToString (entry_timestamp x) @ lit ''}''\<close>

fun joinComma :: "jsstring list \<Rightarrow> jsstring" where
  "joinComma [] = []"
| "joinComma [x] = x"
| "joinComma (x # y # ys) = x @ lit '','' @ joinComma (y # ys)"

definition stringifyHistory :: "history_entry list \<Rightarrow> jsstring" where
  "stringifyHistory h = lit ''['' @ joinComma (map stringifyEntry h) @ lit '']''"

definition hexValue :: "jschar \<Rightarrow> nat option" where
  "hexValue c =
     (if 0x30 \<le> c \<and> c \<le> 0x39 then Some (unat c - 48)
      else if 0x61 \<le> c \<and> c \<le> 0x66 then Some (unat c - 87)
      else if 0x41 \<le> c \<and> c \<le> 0x46 then Some (unat c - 55)
      else None)"

definition unescapeChar :: "jschar \<Rightarrow> jschar option" where
  "unescapeChar c =
     (if c = 0x22 then Some 0x22
      else if c = 0x5C then Some 0x5C
      else if c = 0x2F then Some 0x2F
      else if c = 0x62 then Some 0x08
      else if c = 0x66 then Some 0x0C
      else if c = 0x6E then Some 0x0A
      else if c = 0x72 then Some 0x0D
      else if c = 0x74 then Some 0x09
      else None)"

definition consResult :: "jschar \<Rightarrow> (jsstring \<times> jsstring) option \<Rightarrow> (jsstring \<times> jsstring) option" where
  "consResult c r = map_option (\<lambda>(v, rest). (c # v, rest)) r"

text \<open>Reads a string after its opening quote: the value and the input left after the
  closing quote.\<close>

fun readStringBody :: "jsstring \<Rightarrow> (jsstring \<times> jsstring) option" where
  "readStringBody [] = None"
| "readStringBody (c # cs) =
     (if c = 0x22 then Some ([], cs)
      else if c = 0x5C then
        (case cs of
           [] \<Rightarrow> None
         | x # cs1 \<Rightarrow>
             if x = 0x75 then
               (case cs1 of
                  h1 # h2 # h3 # h4 # cs2 \<Rightarrow>
                    (case (hexValue h1, hexValue h2, hexValue h3, hexValue h4) of
                       (Some a, Some b, Some c', Some d) \<Rightarrow>
                         consResult (of_nat (a * 4096 + b * 256 + c' * 16 + d)) (readStringBody cs2)
                     | _ \<Rightarrow> None)
                | _ \<Rightarrow> None)
             else (case unescapeChar x of
                     None \<Rightarrow> None
                   | Some v \<Rightarrow> consResult v (readStringBody cs1)))
      else if c < 0x20 then None
      else consResult c (readStringBody cs))"

definition isDigit :: "jschar \<Rightarrow> bool" where
  "isDigit c = (0x30 \<le> c \<and> c \<le> 0x39)"

fun readDigits :: "nat \<Rightarrow> jsstring \<Rightarrow> nat \<times> jsstring" where
  "readDigits acc [] = (acc, [])"
| "readDigits acc (c # cs) =
     (if isDigit c then readDigits (10 * acc + (unat c - 48)) cs else (acc, c # cs))"

definition readInt :: "jsstring \<Rightarrow> (int \<times> jsstring) option" where
  "readInt inp =
     (case inp of
        [] \<Rightarrow> None
      | c # cs \<Rightarrow>
          if isDigit c then (case readDigits 0 inp of (n, rest) \<Rightarrow> Some (int n, rest))
          else if c = 0x2D then
            (case cs of
               [] \<Rightarrow> None
             | d # ds \<Rightarrow>
                 if isDigit d then (case readDigits 0 cs of (n, rest) \<Rightarrow> Some (- int n, rest))
                 else None)
          else None)"

definition expect :: "jsstring \<Rightarrow> jsstring \<Rightarrow> jsstring option" where
  "expect pre inp = (if startsWith inp pre then Some (drop (length pre) inp) else None)"

definition readEntry :: "jsstring \<Rightarrow> (history_entry \<times> jsstring) option" where
  \<open>readEntry inp =
     (case expect (lit ''{"url":"'') inp of
        None \<Rightarrow> None
      | Some r1 \<Rightarrow>
     (case readStringBody r1 of
        None \<Rightarrow> None
      | Some (u, r2) \<Rightarrow>
     (case expect (lit '',"prompt":"'') r2 of
        None \<Rightarrow> None
      | Some r3 \<Rightarrow>
     (case readStringBody r3 of
        None \<Rightarrow> None
      | Some (p, r4) \<Rightarrow>
     (case expect (lit '',"timestamp":'') r4 of
        None \<Rightarrow> None
      | Some r5 \<Rightarrow>
     (case readInt r5 of
        None \<Rightarrow> None
      | Some (t, r6) \<Rightarrow>
     (case expect (lit ''}'') r6 of
        None \<Rightarrow> None
      | Some r7 \<Rightarrow> Some (HistoryEntry u p t, r7))))))))\<close>

text \<open>Reads entries up to the closing bracket; the first argument bounds the number
  of entries read and is taken large enough by \<open>parseHistory\<close>.\<close>

fun readEntries :: "nat \<Rightarrow> jsstring \<Rightarrow> (history_entry list \<times> jsstring) option" where
  "readEntries 0 inp = None"
| "readEntries (Suc n) inp =
     (case readEntry inp of
        None \<Rightarrow> None
      | Some (x, rest) \<Rightarrow>
          (case rest of
             [] \<Rightarrow> None
           | c # cs \<Rightarrow>
               if c = 0x2C then map_option (\<lambda>(xs, r). (x # xs, r)) (readEntries n cs)
               else if c = 0x5D then Some ([x], cs)
               else None))"

definition syntaxError :: thrown where
  "syntaxError = Error (lit ''SyntaxError'')"

definition parseFlag :: "jsstring \<Rightarrow> thrown + bool" where
  "parseFlag v =
     (if v = lit ''true'' then Inr True
      else if v = lit ''false'' then Inr False
      else Inl syntaxError)"

definition parseHistory :: "jsstring \<Rightarrow> thrown + history_entry list" where
  "parseHistory inp =
     (case inp of
        [] \<Rightarrow> Inl syntaxError
      | c # cs \<Rightarrow>
          if c \<noteq> 0x5B then Inl syntaxError
          else if cs = [0x5D] then Inr []
          else (case readEntries (length cs) cs of
                  Some (h, []) \<Rightarrow> Inr h
                | _ \<Rightarrow> Inl syntaxError))"

section \<open>Example pages and environments\<close>

text \<open>The page as the script finds it when it starts on a given \<open>localStorage\<close>:
  the initial values of its state variables, nothing rendered yet.\<close>

definition startPage :: "storage \<Rightarrow> page" where
  "startPage st =
     \<lparr>prompt = [], imageSize = Size_1K, aspectRatio = Ratio_1_1, downloadLink = None,
      imageHistory = [], userApiKey = [], useCustomApiKey = False,
      statusEl = InnerText [], outputImage_src = [], outputImage_display = DisplayInitial,
      downloadButton_display = DisplayInitial, loadingSpinner_display = DisplayInitial,
      imageHistorySection_display = DisplayInitial, historyContainerEl = [],
      generateButton_disabled = False, promptEl_disabled = False,
      imageSizeSelectEl_disabled = False, aspectRatioSelectEl_disabled = False,
      downloadButton_disabled = False, clearHistoryButton_disabled = False,
      useCustomApiKeyCheckbox_disabled = False, useCustomApiKeyCheckbox_checked = False,
      apiKeyInputEl_disabled = False, apiKeyInputEl_value = [], apiKeyInputEl_classList = [],
      localStorage = st, effects = []\<rparr>"

definition emptyStorage :: storage where
  "emptyStorage = \<lparr>items = Map.empty, getItem_throws = False, setItem_throws = False\<rparr>"

definition asciiToLowerCase :: "jsstring \<Rightarrow> jsstring" where
  "asciiToLowerCase v = map (\<lambda>c. if 0x41 \<le> c \<and> c \<le> 0x5A then c + 0x20 else c) v"

definition exampleEnv :: "jsstring option \<Rightarrow> (thrown + unit) option \<Rightarrow> api_response \<Rightarrow> env" where
  "exampleEnv key dialog response =
     \<lparr>API_KEY = key, openSelectKey = dialog,
      generateImages = (\<lambda>p k sz r. response),
      toLowerCase = asciiToLowerCase, Date_now = 1700000000000,
      JSON_stringify = stringifyHistory, JSON_parse = parseHistory,
      JSON_parse_flag = parseFlag\<rparr>"

text \<open>The idle page after start-up on an empty store, with a prompt typed in: the
  history section hidden and the key input disabled, the toggle being off.\<close>

definition idlePage :: page where
  "idlePage =
     (startPage emptyStorage)
       \<lparr>prompt := lit ''a cat'', imageHistorySection_display := DisplayNone,
        apiKeyInputEl_disabled := True\<rparr>"

text \<open>The idle page with the toggle on and the given text in the key input.\<close>

definition customKeyPage :: "jsstring \<Rightarrow> page" where
  "customKeyPage k =
     idlePage\<lparr>userApiKey := k, useCustomApiKey := True, useCustomApiKeyCheckbox_checked := True,
       apiKeyInputEl_value := k, apiKeyInputEl_disabled := False\<rparr>"

definition exampleHistory :: "history_entry list" where
  \<open>exampleHistory =
     [HistoryEntry (lit ''data:image/jpeg;base64,AAAA'') (lit ''a "red" cat'') 1700000000000,
      HistoryEntry (lit ''data:image/jpeg;base64,BBBB'') [0x61, 0x0A, 0xD83D, 0xDE00, 0xD800, 0x5C]
        1700000000123]\<close>

definition quotaError :: thrown where
  "quotaError = Error (lit ''429: You exceeded your current quota, please check your plan.'')"

section \<open>Strings\<close>

lemma trim_Nil_iff: "trim p = [] \<longleftrightarrow> (\<forall>c\<in>set p. isWhiteSpace c)"
proof
  assume "trim p = []"
  then have "\<forall>c\<in>set (dropWhile isWhiteSpace p). isWhiteSpace c"
    by (simp add: trim_def)
  then have "dropWhile isWhiteSpace p = []"
    using hd_dropWhile [of isWhiteSpace p] hd_in_set [of "dropWhile isWhiteSpace p"] by blast
  then show "\<forall>c\<in>set p. isWhiteSpace c"
    by simp
next
  assume "\<forall>c\<in>set p. isWhiteSpace c"
  then have "dropWhile isWhiteSpace p = []"
    by simp
  then show "trim p = []"
    unfolding trim_def by (simp del: dropWhile_eq_Nil_conv)
qed

lemma startsWith_iff: "startsWith s sub \<longleftrightarrow> (\<exists>post. s = sub @ post)"
  by (induction s sub rule: startsWith.induct) auto

text \<open>\<open>includes_str\<close> is containment as a substring.\<close>

lemma includes_str_iff: "includes_str s sub \<longleftrightarrow> (\<exists>pre post. s = pre @ sub @ post)"
proof (induction s)
  case Nil
  then show ?case by auto
next
  case (Cons d s)
  show ?case
  proof
    assume "includes_str (d # s) sub"
    then consider "startsWith (d # s) sub" | "includes_str s sub" by auto
    then show "\<exists>pre post. d # s = pre @ sub @ post"
    proof cases
      case 1
      then obtain post where "d # s = sub @ post" by (auto simp: startsWith_iff)
      then have "d # s = [] @ sub @ post" by simp
      then show ?thesis by blast
    next
      case 2
      then obtain pre post where "s = pre @ sub @ post" using Cons.IH by blast
      then have "d # s = (d # pre) @ sub @ post" by simp
      then show ?thesis by blast
    qed
  next
    assume "\<exists>pre post. d # s = pre @ sub @ post"
    then obtain pre post where eq: "d # s = pre @ sub @ post" by blast
    show "includes_str (d # s) sub"
    proof (cases pre)
      case Nil
      then have "startsWith (d # s) sub" using eq by (auto simp: startsWith_iff)
      then show ?thesis by simp
    next
      case (Cons a pre')
      then have "s = pre' @ sub @ post" using eq by simp
      then have "includes_str s sub" using Cons.IH by blast
      then show ?thesis by simp
    qed
  qed
qed

lemma set_classList_add: "set (classList_add ts cl) = set ts \<union> set cl"
  by (induction ts cl rule: classList_add.induct) auto

lemma highlighted_highlightApiKeyInput: "highlighted (highlightApiKeyInput s)"
  by (simp add: highlighted_def highlightApiKeyInput_def set_classList_add)

section \<open>What \<open>generate\<close> leaves alone\<close>

text \<open>
  No statement reachable from \<open>generate\<close> assigns \<open>imageHistory\<close>, writes
  \<open>localStorage\<close>, rebuilds the history list or changes the toggle. The lemmas
  follow the call graph from the leaves up.
\<close>

lemma frame_showStatusError:
  "imageHistory (showStatusError m s) = imageHistory s"
  "localStorage (showStatusError m s) = localStorage s"
  "historyContainerEl (showStatusError m s) = historyContainerEl s"
  "useCustomApiKey (showStatusError m s) = useCustomApiKey s"
  by (simp_all add: showStatusError_def)

lemma frame_log_effect:
  "imageHistory (log_effect x s) = imageHistory s"
  "localStorage (log_effect x s) = localStorage s"
  "historyContainerEl (log_effect x s) = historyContainerEl s"
  "useCustomApiKey (log_effect x s) = useCustomApiKey s"
  by (simp_all add: log_effect_def)

lemma frame_highlightApiKeyInput:
  "imageHistory (highlightApiKeyInput s) = imageHistory s"
  "localStorage (highlightApiKeyInput s) = localStorage s"
  "historyContainerEl (highlightApiKeyInput s) = historyContainerEl s"
  "useCustomApiKey (highlightApiKeyInput s) = useCustomApiKey s"
  by (simp_all add: highlightApiKeyInput_def)

lemma frame_clearApiKeyHighlight:
  "imageHistory (clearApiKeyHighlight s) = imageHistory s"
  "localStorage (clearApiKeyHighlight s) = localStorage s"
  "historyContainerEl (clearApiKeyHighlight s) = historyContainerEl s"
  "useCustomApiKey (clearApiKeyHighlight s) = useCustomApiKey s"
  by (simp_all add: clearApiKeyHighlight_def)

lemma frame_setControlsDisabled:
  "imageHistory (setControlsDisabled d s) = imageHistory s"
  "localStorage (setControlsDisabled d s) = localStorage s"
  "historyContainerEl (setControlsDisabled d s) = historyContainerEl s"
  "useCustomApiKey (setControlsDisabled d s) = useCustomApiKey s"
  by (simp_all add: setControlsDisabled_def)

lemma frame_beginRequest:
  "imageHistory (beginRequest s) = imageHistory s"
  "localStorage (beginRequest s) = localStorage s"
  "historyContainerEl (beginRequest s) = historyContainerEl s"
  "useCustomApiKey (beginRequest s) = useCustomApiKey s"
  by (simp_all add: beginRequest_def frame_setControlsDisabled)

lemma frame_openApiKeyDialog:
  "imageHistory (snd (openApiKeyDialog e s)) = imageHistory s"
  "localStorage (snd (openApiKeyDialog e s)) = localStorage s"
  "historyContainerEl (snd (openApiKeyDialog e s)) = historyContainerEl s"
  "useCustomApiKey (snd (openApiKeyDialog e s)) = useCustomApiKey s"
  by (simp_all add: openApiKeyDialog_def frame_showStatusError frame_log_effect split: option.split)

lemma frame_generateImage:
  "imageHistory (snd (generateImage e p k sz r s)) = imageHistory s"
  "localStorage (snd (generateImage e p k sz r s)) = localStorage s"
  "historyContainerEl (snd (generateImage e p k sz r s)) = historyContainerEl s"
  "useCustomApiKey (snd (generateImage e p k sz r s)) = useCustomApiKey s"
  by (simp_all add: generateImage_def Let_def frame_log_effect
      split: api_response.split option.split list.split)

lemma frame_handleFailure:
  "imageHistory (snd (handleFailure e m t s)) = imageHistory s"
  "localStorage (snd (handleFailure e m t s)) = localStorage s"
  "historyContainerEl (snd (handleFailure e m t s)) = historyContainerEl s"
  "useCustomApiKey (snd (handleFailure e m t s)) = useCustomApiKey s"
  by (simp_all add: handleFailure_def Let_def frame_log_effect frame_showStatusError
      frame_openApiKeyDialog frame_highlightApiKeyInput split: prod.split)

lemma frame_tryGenerate:
  "imageHistory (snd (tryGenerate e k m s)) = imageHistory s"
  "localStorage (snd (tryGenerate e k m s)) = localStorage s"
  "historyContainerEl (snd (tryGenerate e k m s)) = historyContainerEl s"
  "useCustomApiKey (snd (tryGenerate e k m s)) = useCustomApiKey s"
proof -
  obtain r s1 where g: "generateImage e (prompt s) k (imageSize s) (aspectRatio s) s = (r, s1)"
    by (cases "generateImage e (prompt s) k (imageSize s) (aspectRatio s) s")
  have s1: "imageHistory s1 = imageHistory s" "localStorage s1 = localStorage s"
    "historyContainerEl s1 = historyContainerEl s" "useCustomApiKey s1 = useCustomApiKey s"
    using frame_generateImage [of e "prompt s" k "imageSize s" "aspectRatio s" s] g by simp_all
  show "imageHistory (snd (tryGenerate e k m s)) = imageHistory s"
    "localStorage (snd (tryGenerate e k m s)) = localStorage s"
    "historyContainerEl (snd (tryGenerate e k m s)) = historyContainerEl s"
    "useCustomApiKey (snd (tryGenerate e k m s)) = useCustomApiKey s"
    using s1 by (cases r; simp add: tryGenerate_def g frame_handleFailure)+
qed

lemma frame_noApiKey:
  "imageHistory (snd (noApiKey e m s)) = imageHistory s"
  "localStorage (snd (noApiKey e m s)) = localStorage s"
  "historyContainerEl (snd (noApiKey e m s)) = historyContainerEl s"
  "useCustomApiKey (snd (noApiKey e m s)) = useCustomApiKey s"
  by (simp_all add: noApiKey_def Let_def frame_showStatusError frame_log_effect
      frame_openApiKeyDialog frame_highlightApiKeyInput)

text \<open>The two ways through \<open>generate\<close>.\<close>

lemma generate_request:
  assumes "resolveActiveKey e s = (Some key, m)" and "truthy key"
  shows "generate e s =
    (fst (tryGenerate e key m (beginRequest (clearApiKeyHighlight s))),
     setControlsDisabled False (snd (tryGenerate e key m (beginRequest (clearApiKeyHighlight s)))))"
  using assms by (simp add: generate_def keyMissing_def split: prod.split)

lemma generate_noApiKey:
  assumes "resolveActiveKey e s = (k, m)" and "keyMissing k"
  shows "generate e s = noApiKey e m s"
  using assms by (simp add: generate_def)

lemma not_keyMissing: "\<not> keyMissing k \<longleftrightarrow> (\<exists>key. k = Some key \<and> truthy key)"
  by (cases k) (simp_all add: keyMissing_def)

lemma frame_generate:
  "imageHistory (snd (generate e s)) = imageHistory s"
  "localStorage (snd (generate e s)) = localStorage s"
  "historyContainerEl (snd (generate e s)) = historyContainerEl s"
  "useCustomApiKey (snd (generate e s)) = useCustomApiKey s"
proof -
  obtain k m where r: "resolveActiveKey e s = (k, m)"
    by (cases "resolveActiveKey e s")
  have "imageHistory (snd (generate e s)) = imageHistory s
      \<and> localStorage (snd (generate e s)) = localStorage s
      \<and> historyContainerEl (snd (generate e s)) = historyContainerEl s
      \<and> useCustomApiKey (snd (generate e s)) = useCustomApiKey s"
  proof (cases "keyMissing k")
    case True
    then show ?thesis
      by (simp add: generate_noApiKey [OF r] frame_noApiKey)
  next
    case False
    then obtain key where k: "k = Some key" and t: "truthy key"
      by (auto simp: not_keyMissing)
    show ?thesis
      using r k t
      by (simp add: generate_request frame_setControlsDisabled frame_tryGenerate
          frame_beginRequest frame_clearApiKeyHighlight)
  qed
  then show "imageHistory (snd (generate e s)) = imageHistory s"
    "localStorage (snd (generate e s)) = localStorage s"
    "historyContainerEl (snd (generate e s)) = historyContainerEl s"
    "useCustomApiKey (snd (generate e s)) = useCustomApiKey s"
    by simp_all
qed

text \<open>The custom-key flag is set only together with a non-blank key, so the branch
  of \<open>noApiKey\<close> that focuses the key input is never taken from \<open>generate\<close>.\<close>

lemma isUsingCustomKey_has_key:
  "snd (resolveActiveKey e s) \<Longrightarrow> \<not> keyMissing (fst (resolveActiveKey e s))"
  by (simp add: resolveActiveKey_def keyMissing_def split: if_splits)

lemma generate_noApiKey_opens_dialog:
  assumes "keyMissing (fst (resolveActiveKey e s))"
  shows "generate e s =
    openApiKeyDialog e (showStatusError
      (lit ''No API key configured. Please enter your API key or use the \"Add your API Key\" button.'') s)"
proof -
  obtain k m where r: "resolveActiveKey e s = (k, m)"
    by (cases "resolveActiveKey e s")
  with assms have km: "keyMissing k" by simp
  have "\<not> m" using isUsingCustomKey_has_key [of e s] r km by auto
  then show ?thesis
    by (simp add: generate_noApiKey [OF r km] noApiKey_def)
qed

section \<open>The history store\<close>

lemma renderLoop_eq:
  "n \<le> length h \<Longrightarrow> renderLoop h n children = children @ map renderItem (rev (take n h))"
proof (induction n arbitrary: children)
  case 0
  then show ?case by simp
next
  case (Suc n)
  then have "take (Suc n) h = take n h @ [h ! n]"
    by (simp add: take_Suc_conv_app_nth)
  with Suc show ?case by simp
qed

text \<open>Rendering lists the entries newest first.\<close>

lemma renderImageHistory_reverse:
  "historyContainerEl (renderImageHistory s) = map renderItem (rev (imageHistory s))"
  by (simp add: renderImageHistory_def renderLoop_eq)

text \<open>\<open>addImageToHistory\<close> appends exactly one entry and shows it first; nothing
  calls it.\<close>

lemma addImageToHistory_appends:
  "imageHistory (addImageToHistory e u p s) = imageHistory s @ [HistoryEntry u p (Date_now e)]"
  by (simp add: addImageToHistory_def renderImageHistory_def saveHistory_def log_effect_def)

lemma addImageToHistory_renders_first:
  "hd (historyContainerEl (addImageToHistory e u p s)) = renderItem (HistoryEntry u p (Date_now e))"
proof -
  have "imageHistory (saveHistory e (s\<lparr>imageHistory := imageHistory s @ [HistoryEntry u p (Date_now e)]\<rparr>))
      = imageHistory s @ [HistoryEntry u p (Date_now e)]"
    by (simp add: saveHistory_def log_effect_def)
  then show ?thesis
    by (simp add: addImageToHistory_def renderImageHistory_reverse)
qed

section \<open>The request and its failure\<close>

lemma request_inputs:
  "prompt (beginRequest (clearApiKeyHighlight s)) = prompt s"
  "imageSize (beginRequest (clearApiKeyHighlight s)) = imageSize s"
  "aspectRatio (beginRequest (clearApiKeyHighlight s)) = aspectRatio s"
  by (simp_all add: beginRequest_def clearApiKeyHighlight_def setControlsDisabled_def)

lemma beginRequest_resets:
  "downloadLink (beginRequest s) = None"
  "outputImage_display (beginRequest s) = DisplayNone"
  "downloadButton_display (beginRequest s) = DisplayNone"
  "statusEl (beginRequest s) = InnerText (lit ''Generating image...'')"
  by (simp_all add: beginRequest_def setControlsDisabled_def)

lemma beginRequest_disables:
  "generateButton_disabled (beginRequest s)" "promptEl_disabled (beginRequest s)"
  "imageSizeSelectEl_disabled (beginRequest s)" "aspectRatioSelectEl_disabled (beginRequest s)"
  "downloadButton_disabled (beginRequest s)" "clearHistoryButton_disabled (beginRequest s)"
  "useCustomApiKeyCheckbox_disabled (beginRequest s)" "apiKeyInputEl_disabled (beginRequest s)"
  "loadingSpinner_display (beginRequest s) = DisplayBlock"
  by (simp_all add: beginRequest_def setControlsDisabled_def)

text \<open>A response without a first image makes \<open>generateImage\<close> throw, having changed
  nothing but the record of the request.\<close>

lemma generateImage_throws:
  assumes "\<forall>b bs. generateImages e p k sz r \<noteq> Resolves (Some (b # bs))"
  shows "\<exists>t. generateImage e p k sz r s = (Inl t, log_effect (GenerateImages p k sz r) s)"
  using assms
  by (simp add: generateImage_def Let_def split: api_response.split option.split list.split)

lemma generateImage_rejected:
  assumes "generateImages e p k sz r = Rejects t"
  shows "generateImage e p k sz r s = (Inl t, log_effect (GenerateImages p k sz r) s)"
  using assms by (simp add: generateImage_def Let_def)

lemma failure_keeps_reset:
  "downloadLink (snd (handleFailure e m t s)) = downloadLink s"
  "outputImage_display (snd (handleFailure e m t s)) = outputImage_display s"
  by (simp_all add: handleFailure_def Let_def log_effect_def showStatusError_def
      openApiKeyDialog_def highlightApiKeyInput_def split: prod.split option.split)

lemma setControlsDisabled_keeps_reset:
  "downloadLink (setControlsDisabled d s) = downloadLink s"
  "outputImage_display (setControlsDisabled d s) = outputImage_display s"
  by (simp_all add: setControlsDisabled_def)

lemma log_effect_keeps_reset:
  "downloadLink (log_effect x s) = downloadLink s"
  "outputImage_display (log_effect x s) = outputImage_display s"
  by (simp_all add: log_effect_def)

lemma generate_failed:
  assumes "resolveActiveKey e s = (Some key, m)" and "truthy key"
    and "\<forall>b bs. generateImages e (prompt s) key (imageSize s) (aspectRatio s) \<noteq> Resolves (Some (b # bs))"
  shows "\<exists>t. snd (generate e s) =
    setControlsDisabled False
      (snd (handleFailure e m t
         (log_effect (GenerateImages (prompt s) key (imageSize s) (aspectRatio s))
            (beginRequest (clearApiKeyHighlight s)))))"
proof -
  obtain t where
    "generateImage e (prompt s) key (imageSize s) (aspectRatio s) (beginRequest (clearApiKeyHighlight s))
       = (Inl t, log_effect (GenerateImages (prompt s) key (imageSize s) (aspectRatio s))
                   (beginRequest (clearApiKeyHighlight s)))"
    using generateImage_throws [OF assms(3)] by blast
  then have "snd (generate e s) =
    setControlsDisabled False
      (snd (handleFailure e m t
         (log_effect (GenerateImages (prompt s) key (imageSize s) (aspectRatio s))
            (beginRequest (clearApiKeyHighlight s)))))"
    by (simp add: generate_request [OF assms(1,2)] tryGenerate_def request_inputs)
  then show ?thesis by blast
qed

lemma generate_rejected:
  assumes "resolveActiveKey e s = (Some key, m)" and "truthy key"
    and "generateImages e (prompt s) key (imageSize s) (aspectRatio s) = Rejects t"
  shows "snd (generate e s) =
    setControlsDisabled False
      (snd (handleFailure e m t
         (log_effect (GenerateImages (prompt s) key (imageSize s) (aspectRatio s))
            (beginRequest (clearApiKeyHighlight s)))))"
  by (simp add: generate_request [OF assms(1,2)] tryGenerate_def request_inputs
      generateImage_rejected [OF assms(3)])

text \<open>What the \<open>catch\<close> clause does with a message that mentions the quota.\<close>

lemma handleFailure_quota:
  assumes "includes_str (errorMessageOf t) (lit ''You exceeded your current quota'')"
  shows "handleFailure e m t s =
    (if m then
       (Inr (), highlightApiKeyInput (log_effect FocusApiKeyInput
          (showStatusError (lit ''Quota exceeded. Please check your billing details on Google AI Studio.'')
             (log_effect (ConsoleError (lit ''Image generation failed:'')) s))))
     else
       openApiKeyDialog e
         (showStatusError (lit ''Quota exceeded. Please check your billing details on Google AI Studio.'')
            (log_effect (ConsoleError (lit ''Image generation failed:'')) s)))"
  using assms by (simp add: handleFailure_def classifyError_def Let_def)

lemma not_highlighted_classList_remove:
  "\<not> set highlight \<subseteq> set (classList_remove highlight cl)"
  by (auto simp: classList_remove_def highlight_def)

text \<open>The only message the script itself throws does not mention the quota, so a
  failure that does is a rejected request.\<close>

lemma no_images_message_not_quota:
  "\<not> includes_str (lit ''No images were generated. The prompt may have been blocked.'')
        (lit ''You exceeded your current quota'')"
  by (simp add: lit_def)

text \<open>The key input is disabled from the start of the request until the \<open>finally\<close>
  clause: it is disabled throughout the \<open>catch\<close> clause, where \<open>focus\<close> is called
  on it.\<close>

lemma key_input_disabled_in_catch:
  "apiKeyInputEl_disabled
     (snd (handleFailure e m t (log_effect x (beginRequest s))))"
  by (simp add: handleFailure_def Let_def log_effect_def showStatusError_def
      openApiKeyDialog_def highlightApiKeyInput_def beginRequest_def setControlsDisabled_def
      split: prod.split option.split)

section \<open>The key input follows the toggle\<close>

text \<open>
  Every statement of the script that assigns \<open>apiKeyInputEl.disabled\<close> outside a
  request makes it the negation of the toggle: the start-up code, the listener of
  the toggle and the end of a request. The other listeners keep it so.
\<close>

lemma follows_setControlsDisabled_False: "keyInputFollowsToggle (setControlsDisabled False s)"
  by (simp add: keyInputFollowsToggle_def setControlsDisabled_def)

lemma follows_clearApiKeyHighlight:
  "keyInputFollowsToggle (clearApiKeyHighlight s) = keyInputFollowsToggle s"
  by (simp add: keyInputFollowsToggle_def clearApiKeyHighlight_def)

lemma follows_saveCustomApiKeySettings:
  "keyInputFollowsToggle (saveCustomApiKeySettings s) = keyInputFollowsToggle s"
  by (simp add: keyInputFollowsToggle_def saveCustomApiKeySettings_def log_effect_def)

lemma follows_useCustomApiKeyCheckbox_change:
  "keyInputFollowsToggle (useCustomApiKeyCheckbox_change checked s)"
  by (simp add: useCustomApiKeyCheckbox_change_def follows_clearApiKeyHighlight
      follows_saveCustomApiKeySettings) (simp add: keyInputFollowsToggle_def)

lemma follows_apiKeyInputEl_input:
  "keyInputFollowsToggle s \<Longrightarrow> keyInputFollowsToggle (apiKeyInputEl_input v s)"
  by (simp add: apiKeyInputEl_input_def follows_clearApiKeyHighlight
      follows_saveCustomApiKeySettings) (simp add: keyInputFollowsToggle_def)

lemma follows_loadCustomApiKeySettings:
  "\<not> useCustomApiKey s \<Longrightarrow> keyInputFollowsToggle (loadCustomApiKeySettings e s)"
  by (simp add: keyInputFollowsToggle_def loadCustomApiKeySettings_def
      resetCustomApiKeySettings_def log_effect_def Let_def split: option.split sum.split)

lemma follows_initialize: "keyInputFollowsToggle (initialize e (startPage st))"
proof -
  have "\<not> useCustomApiKey (renderImageHistory (loadHistory e (startPage st)))"
    by (simp add: renderImageHistory_def loadHistory_def log_effect_def startPage_def
        split: option.split sum.split)
  then show ?thesis
    unfolding initialize_def by (rule follows_loadCustomApiKeySettings)
qed

lemma follows_noApiKey:
  "keyInputFollowsToggle (snd (noApiKey e m s)) = keyInputFollowsToggle s"
  by (simp add: keyInputFollowsToggle_def noApiKey_def Let_def openApiKeyDialog_def
      showStatusError_def log_effect_def highlightApiKeyInput_def split: option.split)

lemma follows_generate:
  assumes "keyInputFollowsToggle s"
  shows "keyInputFollowsToggle (snd (generate e s))"
proof -
  obtain k m where r: "resolveActiveKey e s = (k, m)"
    by (cases "resolveActiveKey e s")
  show ?thesis
  proof (cases "keyMissing k")
    case True
    with assms show ?thesis
      by (simp add: generate_noApiKey [OF r] follows_noApiKey)
  next
    case False
    then obtain key where "k = Some key" and t: "truthy key"
      by (auto simp: not_keyMissing)
    with r have "resolveActiveKey e s = (Some key, m)" by simp
    then show ?thesis
      by (simp add: generate_request [OF _ t] follows_setControlsDisabled_False)
  qed
qed

lemma follows_generateButton_click:
  "keyInputFollowsToggle s \<Longrightarrow> keyInputFollowsToggle (generateButton_click e s)"
  by (simp add: generateButton_click_def follows_generate)
    (simp add: keyInputFollowsToggle_def showStatusError_def)

lemma follows_downloadButton_click:
  "keyInputFollowsToggle (downloadButton_click s) = keyInputFollowsToggle s"
  by (simp add: keyInputFollowsToggle_def downloadButton_click_def handleDownload_def
      showStatusError_def log_effect_def split: option.split)

lemma follows_clearHistoryButton_click:
  "keyInputFollowsToggle (clearHistoryButton_click e s) = keyInputFollowsToggle s"
  by (simp add: keyInputFollowsToggle_def clearHistoryButton_click_def clearImageHistory_def
      renderImageHistory_def saveHistory_def showStatusError_def log_effect_def)

section \<open>The codec reads back what it writes\<close>

lemma unat_of_nat_jschar: "n < 65536 \<Longrightarrow> unat (of_nat n :: jschar) = n"
  by (simp add: unat_of_nat)

lemma unat_jschar_less: "unat (c :: jschar) < 65536"
  using unsigned_less [of c, where 'a = nat] by simp

lemma unat_hexDigit: "d < 16 \<Longrightarrow> unat (hexDigit d) = (if d < 10 then 48 + d else 87 + d)"
proof -
  assume d: "d < 16"
  have "unat (of_nat (48 + d) :: jschar) = 48 + d"
    by (rule unat_of_nat_jschar) (use d in simp)
  moreover have "unat (of_nat (87 + d) :: jschar) = 87 + d"
    by (rule unat_of_nat_jschar) (use d in simp)
  ultimately show ?thesis
    unfolding hexDigit_def by (cases "d < 10") (simp_all only: if_True if_False)
qed

lemma hexValue_unat:
  "hexValue c =
     (if 48 \<le> unat c \<and> unat c \<le> 57 then Some (unat c - 48)
      else if 97 \<le> unat c \<and> unat c \<le> 102 then Some (unat c - 87)
      else if 65 \<le> unat c \<and> unat c \<le> 70 then Some (unat c - 55)
      else None)"
  by (simp add: hexValue_def word_le_nat_alt)

lemma hexValue_hexDigit: "d < 16 \<Longrightarrow> hexValue (hexDigit d) = Some d"
  by (simp add: hexValue_unat unat_hexDigit)

lemma hex_digits_value:
  fixes n :: nat
  shows "n div 4096 * 4096 + n div 256 mod 16 * 256 + n div 16 mod 16 * 16 + n mod 16 = n"
proof -
  have a: "n div 16 mod 16 * 16 + n mod 16 = n mod 256"
    using mod_mult2_eq [of n 16 16] by simp
  have b: "n div 256 mod 16 * 256 + n mod 256 = n mod 4096"
    using mod_mult2_eq [of n 256 16] by simp
  have c: "n div 4096 * 4096 + n mod 4096 = n"
    by simp
  from a b c show ?thesis by linarith
qed

lemma readStringBody_unicodeEscape:
  "readStringBody (unicodeEscape c @ rest) = consResult c (readStringBody rest)"
proof -
  have "unat c div 4096 < 16"
    using unat_jschar_less [of c] by simp
  moreover have "(of_nat (unat c div 4096 * 4096 + unat c div 256 mod 16 * 256
            + unat c div 16 mod 16 * 16 + unat c mod 16) :: jschar) = c"
    by (simp only: hex_digits_value of_nat_unat) simp
  ultimately show ?thesis
    by (simp add: unicodeEscape_def hexValue_hexDigit del: of_nat_add of_nat_mult)
qed

lemma readStringBody_escapeUnit:
  "readStringBody (escapeUnit c @ rest) = consResult c (readStringBody rest)"
  by (simp add: escapeUnit_def readStringBody_unicodeEscape unescapeChar_def)

lemma surrogate_plain:
  "isHighSurrogate c \<or> isLowSurrogate c \<Longrightarrow> c \<noteq> 0x22 \<and> c \<noteq> 0x5C \<and> \<not> c < 0x20"
  by (auto simp: isHighSurrogate_def isLowSurrogate_def word_le_nat_alt word_less_nat_alt)

lemma readStringBody_pair:
  assumes "isHighSurrogate c" and "isLowSurrogate d"
  shows "readStringBody (c # d # rest) = consResult c (consResult d (readStringBody rest))"
  using surrogate_plain [of c] surrogate_plain [of d] assms by simp

lemma readStringBody_escapeJSON:
  "readStringBody (escapeJSON v @ 0x22 # rest) = Some (v, rest)"
proof (induction v rule: escapeJSON.induct)
  case 1
  show ?case by simp
next
  case (2 c)
  have "readStringBody (escapeUnit c @ 0x22 # rest) = consResult c (readStringBody (0x22 # rest))"
    by (rule readStringBody_escapeUnit)
  then show ?case by (simp add: consResult_def)
next
  case (3 c d ds)
  show ?case
  proof (cases "isHighSurrogate c \<and> isLowSurrogate d")
    case True
    have e: "escapeJSON (c # d # ds) @ 0x22 # rest = c # d # escapeJSON ds @ 0x22 # rest"
      using True by simp
    have ih: "readStringBody (escapeJSON ds @ 0x22 # rest) = Some (ds, rest)"
      using 3(1) True by blast
    have "readStringBody (c # d # escapeJSON ds @ 0x22 # rest)
        = consResult c (consResult d (readStringBody (escapeJSON ds @ 0x22 # rest)))"
      using True by (simp only: readStringBody_pair)
    then show ?thesis
      unfolding e ih by (simp add: consResult_def)
  next
    case False
    have e: "escapeJSON (c # d # ds) @ 0x22 # rest
        = escapeUnit c @ escapeJSON (d # ds) @ 0x22 # rest"
      using False by auto
    have ih: "readStringBody (escapeJSON (d # ds) @ 0x22 # rest) = Some (d # ds, rest)"
      using 3(2) False by blast
    show ?thesis
      unfolding e readStringBody_escapeUnit ih by (simp add: consResult_def)
  qed
qed


lemma unat_digitChar: "d < 10 \<Longrightarrow> unat (digitChar d) = 48 + d"
  unfolding digitChar_def by (rule unat_of_nat_jschar) simp

lemma isDigit_unat: "isDigit c = (48 \<le> unat c \<and> unat c \<le> 57)"
  by (simp add: isDigit_def word_le_nat_alt)

lemma readDigits_digitChar:
  "d < 10 \<Longrightarrow> readDigits acc (digitChar d # rest) = readDigits (10 * acc + d) rest"
  by (simp add: isDigit_unat unat_digitChar)

lemma readDigits_decimalDigits:
  "readDigits acc (decimalDigits n @ rest)
     = readDigits (acc * 10 ^ length (decimalDigits n) + n) rest"
proof (induction n arbitrary: acc rest rule: decimalDigits.induct)
  case (1 n)
  show ?case
  proof (cases "n < 10")
    case True
    then have "decimalDigits n = [digitChar n]"
      by (simp add: decimalDigits.simps [of n])
    with True show ?thesis
      by (simp add: readDigits_digitChar mult.commute del: readDigits.simps)
  next
    case False
    then have e: "decimalDigits n = decimalDigits (n div 10) @ [digitChar (n mod 10)]"
      by (simp add: decimalDigits.simps [of n])
    have "readDigits acc (decimalDigits (n div 10) @ digitChar (n mod 10) # rest)
        = readDigits (acc * 10 ^ length (decimalDigits (n div 10)) + n div 10)
            (digitChar (n mod 10) # rest)"
      using 1 [OF False] by simp
    also have "\<dots> = readDigits
        (10 * (acc * 10 ^ length (decimalDigits (n div 10)) + n div 10) + n mod 10) rest"
      by (rule readDigits_digitChar) simp
    also have "10 * (acc * 10 ^ length (decimalDigits (n div 10)) + n div 10) + n mod 10
        = acc * 10 ^ length (decimalDigits n) + n"
      by (simp add: e algebra_simps)
    finally show ?thesis
      by (simp add: e)
  qed
qed

lemma readDigits_stop:
  "rest = [] \<or> \<not> isDigit (hd rest) \<Longrightarrow> readDigits acc rest = (acc, rest)"
  by (cases rest) auto

lemma decimalDigits_Cons: "\<exists>d ds. decimalDigits n = d # ds \<and> isDigit d"
proof (induction n rule: decimalDigits.induct)
  case (1 n)
  show ?case
  proof (cases "n < 10")
    case True
    then show ?thesis
      by (simp add: decimalDigits.simps [of n] isDigit_unat unat_digitChar)
  next
    case False
    with 1 obtain d ds where "decimalDigits (n div 10) = d # ds" and "isDigit d"
      by blast
    with False show ?thesis
      by (simp add: decimalDigits.simps [of n])
  qed
qed

lemma readInt_numberToString:
  assumes "rest = [] \<or> \<not> isDigit (hd rest)"
  shows "readInt (numberToString n @ rest) = Some (n, rest)"
proof (cases "n < 0")
  case True
  obtain d ds where dd: "decimalDigits (nat (- n)) = d # ds" and d: "isDigit d"
    using decimalDigits_Cons by blast
  have "readDigits 0 (decimalDigits (nat (- n)) @ rest) = (nat (- n), rest)"
    by (simp add: readDigits_decimalDigits readDigits_stop [OF assms])
  then have "readDigits 0 (d # ds @ rest) = (nat (- n), rest)"
    by (simp add: dd)
  moreover have "\<not> isDigit 0x2D"
    by (simp add: isDigit_def)
  ultimately show ?thesis
    using True d by (simp add: readInt_def numberToString_def lit_def dd)
next
  case False
  obtain d ds where dd: "decimalDigits (nat n) = d # ds" and d: "isDigit d"
    using decimalDigits_Cons by blast
  have "readDigits 0 (decimalDigits (nat n) @ rest) = (nat n, rest)"
    by (simp add: readDigits_decimalDigits readDigits_stop [OF assms])
  then have "readDigits 0 (d # ds @ rest) = (nat n, rest)"
    by (simp add: dd)
  then show ?thesis
    using False d by (simp add: readInt_def numberToString_def dd)
qed

lemma startsWith_append: "startsWith (p @ r) p"
  by (induction p) simp_all

lemma expect_append: "expect p (p @ r) = Some r"
  by (simp add: expect_def startsWith_append)

lemma stringifyEntry_text:
  \<open>stringifyEntry (HistoryEntry u p t) @ rest =
     lit ''{"url":"'' @ escapeJSON u @ 0x22 #
       lit '',"prompt":"'' @ escapeJSON p @ 0x22 #
       lit '',"timestamp":'' @ numberToString t @ lit ''}'' @ rest\<close>
  by (simp add: stringifyEntry_def quoteJSONString_def lit_def)

lemma readEntry_stringifyEntry: "readEntry (stringifyEntry x @ rest) = Some (x, rest)"
proof (cases x)
  case (HistoryEntry u p t)
  have brace: "rest' = [] \<or> \<not> isDigit (hd rest')" if "rest' = lit ''}'' @ rest" for rest'
    using that by (simp add: lit_def isDigit_def)
  have "readInt (numberToString t @ lit ''}'' @ rest) = Some (t, lit ''}'' @ rest)"
    by (rule readInt_numberToString) (rule brace, rule refl)
  then show ?thesis
    unfolding HistoryEntry stringifyEntry_text readEntry_def
    by (simp add: expect_append readStringBody_escapeJSON)
qed

lemma stringifyEntry_not_Nil: "stringifyEntry x \<noteq> []"
  by (simp add: stringifyEntry_def lit_def)

lemma readEntries_joinComma:
  "h \<noteq> [] \<Longrightarrow> length h \<le> n \<Longrightarrow>
     readEntries n (joinComma (map stringifyEntry h) @ 0x5D # rest) = Some (h, rest)"
proof (induction h arbitrary: n)
  case Nil
  then show ?case by simp
next
  case (Cons x h)
  from Cons.prems obtain n' where n: "n = Suc n'" and len: "length h \<le> n'"
    by (cases n) auto
  show ?case
  proof (cases h)
    case Nil
    then show ?thesis
      by (simp add: n readEntry_stringifyEntry)
  next
    case (Cons y ys)
    have "readEntries n' (joinComma (map stringifyEntry h) @ 0x5D # rest) = Some (h, rest)"
      using Cons.IH [of n'] len Cons by simp
    moreover have "joinComma (map stringifyEntry (x # h)) @ 0x5D # rest
        = stringifyEntry x @ 0x2C # joinComma (map stringifyEntry h) @ 0x5D # rest"
      by (simp add: Cons lit_def)
    ultimately show ?thesis
      by (simp add: n readEntry_stringifyEntry)
  qed
qed

lemma length_joinComma: "length h \<le> length (joinComma (map stringifyEntry h))"
proof (induction h rule: induct_list012)
  case 1
  show ?case by simp
next
  case (2 x)
  then show ?case
    using stringifyEntry_not_Nil [of x] by (simp add: Suc_le_eq)
next
  case (3 x y zs)
  then show ?case
    using stringifyEntry_not_Nil [of x] by (cases "stringifyEntry x") simp_all
qed

text \<open>Every history is read back from its text, and the text is never empty.\<close>

lemma parseHistory_stringifyHistory: "parseHistory (stringifyHistory h) = Inr h"
proof (cases "h = []")
  case True
  then show ?thesis
    by (simp add: parseHistory_def stringifyHistory_def lit_def)
next
  case False
  define body where "body = joinComma (map stringifyEntry h)"
  have shape: "stringifyHistory h = 0x5B # body @ [0x5D]"
    by (simp add: stringifyHistory_def body_def lit_def)
  have "body \<noteq> []"
    using False length_joinComma [of h] by (auto simp: body_def)
  then have ne: "body @ [0x5D] \<noteq> [0x5D]"
    by simp
  have "length h \<le> length (body @ [0x5D])"
    using length_joinComma [of h] by (simp add: body_def)
  then have "readEntries (length (body @ [0x5D])) (body @ [0x5D]) = Some (h, [])"
    unfolding body_def by (rule readEntries_joinComma [OF False])
  with ne show ?thesis
    by (simp add: parseHistory_def shape)
qed

lemma stringifyHistory_truthy: "truthy (stringifyHistory h)"
  by (simp add: truthy_def stringifyHistory_def lit_def)

text \<open>The text written for a history with one entry, and the history read back
  from the text of the example.\<close>

lemma stringifyHistory_example:
  \<open>stringifyHistory [HistoryEntry (lit ''u'') ([0x61, 0x22, 0x0A, 0x5C]) (- 12)]
     = lit ''[{"url":"u","prompt":"a'' @ [0x5C, 0x22, 0x5C, 0x6E, 0x5C, 0x5C] @ lit ''","timestamp":-12}]''\<close>
  by (simp add: stringifyHistory_def stringifyEntry_def quoteJSONString_def escapeUnit_def
      isHighSurrogate_def isLowSurrogate_def numberToString_def decimalDigits.simps
      digitChar_def lit_def)

lemma parseHistory_rejects_garbage: "parseHistory (lit ''{}'') = Inl syntaxError"
  by (simp add: parseHistory_def lit_def)

text \<open>The start-up code leaves the history as \<open>loadHistory\<close> made it, and what
  \<open>loadHistory\<close> makes of a store just written is the history that was saved.\<close>

lemma initialize_imageHistory: "imageHistory (initialize e s) = imageHistory (loadHistory e s)"
  by (simp add: initialize_def loadCustomApiKeySettings_def resetCustomApiKeySettings_def
      renderImageHistory_def log_effect_def Let_def split: option.split sum.split)

lemma load_after_save:
  assumes "\<not> setItem_throws (localStorage s)" and "\<not> getItem_throws (localStorage s)"
    and "JSON_parse e (JSON_stringify e (imageHistory s)) = Inr (imageHistory s)"
    and "truthy (JSON_stringify e (imageHistory s))"
  shows "imageHistory (loadHistory e (startPage (localStorage (saveHistory e s)))) = imageHistory s"
  using assms by (simp add: loadHistory_def saveHistory_def startPage_def)

text \<open>With a store that works, saving and starting again through this codec keeps
  every history.\<close>

lemma codec_keeps_history:
  assumes "\<not> setItem_throws (localStorage s)" and "\<not> getItem_throws (localStorage s)"
    and "JSON_stringify e = stringifyHistory" and "JSON_parse e = parseHistory"
  shows "imageHistory (initialize e (startPage (localStorage (saveHistory e s)))) = imageHistory s"
  using assms stringifyHistory_truthy [of "imageHistory s"]
  by (simp add: initialize_imageHistory load_after_save parseHistory_stringifyHistory)

text \<open>When the store refuses the write the old text stays, and when nothing was ever
  stored the history of a new session is empty.\<close>

lemma saveHistory_throws:
  "setItem_throws (localStorage s) \<Longrightarrow> localStorage (saveHistory e s) = localStorage s"
  by (simp add: saveHistory_def log_effect_def)

lemma loadHistory_nothing_stored:
  "items st IMAGE_HISTORY_KEY = None \<Longrightarrow> imageHistory (loadHistory e (startPage st)) = []"
  by (simp add: loadHistory_def startPage_def log_effect_def)

section \<open>Evaluating the examples\<close>

lemmas example_defs =
  exampleEnv_def idlePage_def customKeyPage_def startPage_def emptyStorage_def quotaError_def

lemmas generate_defs =
  generate_def resolveActiveKey_def keyMissing_def truthy_def noApiKey_def tryGenerate_def
  beginRequest_def generateImage_def handleFailure_def classifyError_def errorMessageOf_def
  openApiKeyDialog_def showStatusError_def log_effect_def setControlsDisabled_def
  clearApiKeyHighlight_def highlightApiKeyInput_def classList_remove_def highlight_def
  highlighted_def trim_def isWhiteSpace_def lit_def Let_def

section \<open>The claims\<close>

text \<open>
  C1 (the code does not do this). A generation that succeeds should append exactly one
  entry to the history, and rendering should show the newest entry first. The note in
  \<open>generate\<close> says that \<open>addImageToHistory\<close> is called inside \<open>generateImage\<close>;
  it is not called there or anywhere else. On the idle page, with the ambient key
  and a response carrying one image, the generation succeeds, the image becomes the
  download target, and the history, its rendering and the store are as before: empty.
\<close>

theorem generate_success_leaves_history_empty:
  "fst (generate (exampleEnv (Some (lit ''k'')) (Some (Inr ())) (Resolves (Some [lit ''AAAA'']))) idlePage)
     = Inr ()
   \<and> statusEl (snd (generate (exampleEnv (Some (lit ''k'')) (Some (Inr ())) (Resolves (Some [lit ''AAAA'']))) idlePage))
     = InnerText (lit ''Image generated successfully.'')
   \<and> downloadLink (snd (generate (exampleEnv (Some (lit ''k'')) (Some (Inr ())) (Resolves (Some [lit ''AAAA'']))) idlePage))
     = Some (lit ''data:image/jpeg;base64,AAAA'')
   \<and> imageHistory (snd (generate (exampleEnv (Some (lit ''k'')) (Some (Inr ())) (Resolves (Some [lit ''AAAA'']))) idlePage))
     = []
   \<and> historyContainerEl (snd (generate (exampleEnv (Some (lit ''k'')) (Some (Inr ())) (Resolves (Some [lit ''AAAA'']))) idlePage))
     = []
   \<and> items (localStorage (snd (generate (exampleEnv (Some (lit ''k'')) (Some (Inr ())) (Resolves (Some [lit ''AAAA'']))) idlePage)))
        IMAGE_HISTORY_KEY
     = None"
  by (simp add: example_defs generate_defs)

text \<open>
  C2 (the code does not do this). With the toggle on, a blank key in the input and no
  ambient key, \<open>generate\<close> should focus and highlight the key input and leave the
  key-selection flow alone. The flag \<open>isUsingCustomKey\<close> is set only when the
  custom key is not blank, so the test \<open>!isUsingCustomKey\<close> holds here: the
  selection flow is opened, and the input is neither focused nor highlighted.
\<close>

theorem generate_blank_custom_key_opens_dialog:
  "useCustomApiKey (customKeyPage (lit ''  ''))
   \<and> trim (userApiKey (customKeyPage (lit ''  ''))) = []
   \<and> effects (snd (generate (exampleEnv None (Some (Inr ())) (Resolves None)) (customKeyPage (lit ''  ''))))
     = [OpenSelectKey]
   \<and> \<not> highlighted (snd (generate (exampleEnv None (Some (Inr ())) (Resolves None)) (customKeyPage (lit ''  ''))))"
  by (simp add: example_defs generate_defs)

text \<open>
  C3. When the prompt is empty or made of white space only, a click on the generate
  button only replaces the status line by the message asking for a prompt: no request
  is made, and the history, the key settings, the image and the controls are as before.
\<close>

theorem generateButton_click_blank_prompt:
  assumes "\<forall>c\<in>set (prompt s). isWhiteSpace c"
  shows "generateButton_click e s
           = s\<lparr>statusEl := errorSpan (lit ''Please enter a prompt to generate an image.'')\<rparr>
       \<and> effects (generateButton_click e s) = effects s"
proof -
  have "trim (prompt s) = []"
    using assms by (simp add: trim_Nil_iff)
  then show ?thesis
    by (simp add: generateButton_click_def truthy_def showStatusError_def)
qed

theorem generateButton_click_blank_prompt_witness:
  "list_all isWhiteSpace (prompt (idlePage\<lparr>prompt := lit '' ''\<rparr>))
   \<and> generateButton_click (exampleEnv (Some (lit ''k'')) None (Resolves None)) (idlePage\<lparr>prompt := lit '' ''\<rparr>)
       = idlePage\<lparr>prompt := lit '' '',
           statusEl := errorSpan (lit ''Please enter a prompt to generate an image.'')\<rparr>
   \<and> effects (generateButton_click (exampleEnv (Some (lit ''k'')) None (Resolves None))
        (idlePage\<lparr>prompt := lit '' ''\<rparr>)) = []"
proof -
  have h: "\<forall>c\<in>set (prompt (idlePage\<lparr>prompt := lit '' ''\<rparr>)). isWhiteSpace c"
    by (simp add: lit_def isWhiteSpace_def)
  show ?thesis
    using h generateButton_click_blank_prompt [OF h, of "exampleEnv (Some (lit ''k'')) None (Resolves None)"]
    by (simp add: example_defs list_all_iff)
qed

text \<open>
  C4, as stated: with the toggle on and a key that is not blank once trimmed, the key
  resolved is the manual key. It is not when the key carries white space around it:
  for the key \<open>" k"\<close> the key resolved is \<open>"k"\<close>.
\<close>

theorem resolveActiveKey_padded_key_counterexample:
  "useCustomApiKey (customKeyPage (lit '' k''))
   \<and> truthy (trim (userApiKey (customKeyPage (lit '' k''))))
   \<and> fst (resolveActiveKey (exampleEnv (Some (lit ''ambient'')) None (Resolves None)) (customKeyPage (lit '' k'')))
       \<noteq> Some (userApiKey (customKeyPage (lit '' k'')))"
  by (simp add: example_defs resolveActiveKey_def truthy_def trim_def isWhiteSpace_def lit_def)

text \<open>
  C4, amended. With the toggle on and a key that is not blank once trimmed, the key
  resolved is the trimmed manual key, with the custom-key flag set, and it is the
  same whatever ambient key the environment offers; with the toggle off it is the
  ambient key, with the flag unset, whatever the key input holds.
\<close>

theorem resolveActiveKey_manual_or_ambient:
  "(useCustomApiKey s \<and> truthy (trim (userApiKey s))
      \<longrightarrow> resolveActiveKey e s = (Some (trim (userApiKey s)), True)
        \<and> resolveActiveKey (e\<lparr>API_KEY := ambient\<rparr>) s = resolveActiveKey e s)
   \<and> (\<not> useCustomApiKey s
      \<longrightarrow> resolveActiveKey e s = (API_KEY e, False)
        \<and> resolveActiveKey e (s\<lparr>userApiKey := typed\<rparr>) = resolveActiveKey e s)"
  by (simp add: resolveActiveKey_def)

theorem resolveActiveKey_manual_or_ambient_witness:
  "useCustomApiKey (customKeyPage (lit '' k'')) \<and> truthy (trim (userApiKey (customKeyPage (lit '' k''))))
   \<and> resolveActiveKey (exampleEnv (Some (lit ''ambient'')) None (Resolves None)) (customKeyPage (lit '' k''))
       = (Some (lit ''k''), True)
   \<and> \<not> useCustomApiKey (idlePage\<lparr>userApiKey := lit ''k''\<rparr>)
   \<and> resolveActiveKey (exampleEnv (Some (lit ''ambient'')) None (Resolves None)) (idlePage\<lparr>userApiKey := lit ''k''\<rparr>)
       = (Some (lit ''ambient''), False)"
  using resolveActiveKey_manual_or_ambient
      [of "customKeyPage (lit '' k'')" "exampleEnv (Some (lit ''ambient'')) None (Resolves None)"]
    resolveActiveKey_manual_or_ambient
      [of "idlePage\<lparr>userApiKey := lit ''k''\<rparr>" "exampleEnv (Some (lit ''ambient'')) None (Resolves None)"]
  by (simp add: example_defs truthy_def trim_def isWhiteSpace_def lit_def)

text \<open>
  C5, as stated: after a failure whose message mentions the quota, the status line
  shows the quota message, and the key-selection flow is opened exactly when the
  ambient key was used. With the ambient key in use on a page that offers no
  \<open>openSelectKey\<close>, neither holds: the flow cannot be opened, and the status line
  ends with the notice that key selection is not available.
\<close>

theorem generate_quota_no_dialog_counterexample:
  "resolveActiveKey (exampleEnv (Some (lit ''k'')) None (Rejects quotaError)) idlePage
     = (Some (lit ''k''), False)
   \<and> includes_str (errorMessageOf quotaError) (lit ''You exceeded your current quota'')
   \<and> statusEl (snd (generate (exampleEnv (Some (lit ''k'')) None (Rejects quotaError)) idlePage))
       \<noteq> errorSpan (lit ''Quota exceeded. Please check your billing details on Google AI Studio.'')
   \<and> OpenSelectKey \<notin> set (effects (snd (generate (exampleEnv (Some (lit ''k'')) None (Rejects quotaError)) idlePage)))"
  by (simp add: example_defs generate_defs errorSpan_def)

text \<open>
  C5, amended. After a request that is rejected with a message containing
  "You exceeded your current quota", \<open>generate\<close> writes the quota message to the
  status line. If the custom key was in use, the key input is then highlighted and
  the key-selection flow is not opened. If the ambient key was in use,
  \<open>openApiKeyDialog\<close> is called: where the page offers \<open>openSelectKey\<close> the
  flow is opened and the quota message stays; where it does not, the status line is
  replaced by the notice that key selection is not available. In these two cases
  the key input is not highlighted.
\<close>

theorem generate_quota_exceeded:
  assumes "resolveActiveKey e s = (Some key, isUsingCustomKey)" and "truthy key"
    and "generateImages e (prompt s) key (imageSize s) (aspectRatio s) = Rejects t"
    and "includes_str (errorMessageOf t) (lit ''You exceeded your current quota'')"
  shows
    "(isUsingCustomKey \<longrightarrow>
        statusEl (snd (generate e s))
          = errorSpan (lit ''Quota exceeded. Please check your billing details on Google AI Studio.'')
      \<and> highlighted (snd (generate e s))
      \<and> OpenSelectKey \<notin> set (drop (length (effects s)) (effects (snd (generate e s)))))
   \<and> (\<not> isUsingCustomKey \<and> openSelectKey e \<noteq> None \<longrightarrow>
        statusEl (snd (generate e s))
          = errorSpan (lit ''Quota exceeded. Please check your billing details on Google AI Studio.'')
      \<and> effects (snd (generate e s))
          = effects s @ [GenerateImages (prompt s) key (imageSize s) (aspectRatio s),
                         ConsoleError (lit ''Image generation failed:''), OpenSelectKey]
      \<and> \<not> highlighted (snd (generate e s)))
   \<and> (\<not> isUsingCustomKey \<and> openSelectKey e = None \<longrightarrow>
        statusEl (snd (generate e s))
          = errorSpan (lit ''API key selection is not available. Please configure the API_KEY environment variable.'')
      \<and> effects (snd (generate e s))
          = effects s @ [GenerateImages (prompt s) key (imageSize s) (aspectRatio s),
                         ConsoleError (lit ''Image generation failed:'')]
      \<and> \<not> highlighted (snd (generate e s)))"
proof (cases isUsingCustomKey)
  case True
  then show ?thesis
    by (simp add: generate_rejected [OF assms(1,2,3)] handleFailure_quota [OF assms(4)]
        setControlsDisabled_def highlighted_def highlightApiKeyInput_def set_classList_add
        log_effect_def showStatusError_def beginRequest_def clearApiKeyHighlight_def)
next
  case False
  show ?thesis
  proof (cases "openSelectKey e")
    case None
    with False show ?thesis
      by (simp add: generate_rejected [OF assms(1,2,3)] handleFailure_quota [OF assms(4)]
          setControlsDisabled_def highlighted_def openApiKeyDialog_def
          log_effect_def showStatusError_def beginRequest_def clearApiKeyHighlight_def
          not_highlighted_classList_remove)
  next
    case (Some outcome)
    with False show ?thesis
      by (simp add: generate_rejected [OF assms(1,2,3)] handleFailure_quota [OF assms(4)]
          setControlsDisabled_def highlighted_def openApiKeyDialog_def
          log_effect_def showStatusError_def beginRequest_def clearApiKeyHighlight_def
          not_highlighted_classList_remove)
  qed
qed

theorem generate_quota_exceeded_witness:
  "resolveActiveKey (exampleEnv None None (Rejects quotaError)) (customKeyPage (lit ''k''))
     = (Some (lit ''k''), True)
   \<and> truthy (lit ''k'')
   \<and> includes_str (errorMessageOf quotaError) (lit ''You exceeded your current quota'')
   \<and> statusEl (snd (generate (exampleEnv None None (Rejects quotaError)) (customKeyPage (lit ''k''))))
       = errorSpan (lit ''Quota exceeded. Please check your billing details on Google AI Studio.'')
   \<and> highlighted (snd (generate (exampleEnv None None (Rejects quotaError)) (customKeyPage (lit ''k''))))
   \<and> OpenSelectKey \<notin> set (effects
        (snd (generate (exampleEnv None None (Rejects quotaError)) (customKeyPage (lit ''k'')))))
   \<and> resolveActiveKey (exampleEnv (Some (lit ''k'')) (Some (Inr ())) (Rejects quotaError)) idlePage
       = (Some (lit ''k''), False)
   \<and> effects (snd (generate (exampleEnv (Some (lit ''k'')) (Some (Inr ())) (Rejects quotaError)) idlePage))
       = [GenerateImages (lit ''a cat'') (lit ''k'') Size_1K Ratio_1_1,
          ConsoleError (lit ''Image generation failed:''), OpenSelectKey]
   \<and> effects (snd (generate (exampleEnv (Some (lit ''k'')) None (Rejects quotaError)) idlePage))
       = [GenerateImages (lit ''a cat'') (lit ''k'') Size_1K Ratio_1_1,
          ConsoleError (lit ''Image generation failed:'')]"
proof -
  have r1: "resolveActiveKey (exampleEnv None None (Rejects quotaError)) (customKeyPage (lit ''k''))
     = (Some (lit ''k''), True)"
    by (simp add: example_defs resolveActiveKey_def truthy_def trim_def isWhiteSpace_def lit_def)
  have r2: "resolveActiveKey (exampleEnv (Some (lit ''k'')) d (Rejects quotaError)) idlePage
     = (Some (lit ''k''), False)" for d
    by (simp add: example_defs resolveActiveKey_def)
  have k: "truthy (lit ''k'')"
    by (simp add: truthy_def lit_def)
  have g: "generateImages (exampleEnv a d (Rejects quotaError)) p (lit ''k'') sz r = Rejects quotaError"
    for a d p sz r
    by (simp add: exampleEnv_def)
  have q: "includes_str (errorMessageOf quotaError) (lit ''You exceeded your current quota'')"
    by (simp add: quotaError_def errorMessageOf_def lit_def)
  have d1: "openSelectKey (exampleEnv (Some (lit ''k'')) (Some (Inr ())) (Rejects quotaError)) \<noteq> None"
    and d2: "openSelectKey (exampleEnv (Some (lit ''k'')) None (Rejects quotaError)) = None"
    by (simp_all add: exampleEnv_def)
  have p: "prompt idlePage = lit ''a cat''" "imageSize idlePage = Size_1K"
    "aspectRatio idlePage = Ratio_1_1" "effects idlePage = []"
    "effects (customKeyPage (lit ''k'')) = []"
    by (simp_all add: customKeyPage_def idlePage_def startPage_def)
  show ?thesis
    using generate_quota_exceeded [OF r1 k g q]
      generate_quota_exceeded [OF r2 k g q, of "Some (Inr ())"]
      generate_quota_exceeded [OF r2 k g q, of None]
      r1 r2 k q d1 d2 p
    by simp
qed

text \<open>
  C6, as stated: after an attempt that reaches the request, the controls disabled at
  the start of the request are enabled again. The key input is one of them, and with
  the toggle off it is not: on the idle page, with the ambient key and a request that
  succeeds, the key input is disabled when the request starts and disabled when
  \<open>generate\<close> ends.
\<close>

theorem generate_key_input_stays_disabled_counterexample:
  "resolveActiveKey (exampleEnv (Some (lit ''k'')) None (Resolves (Some [lit ''AAAA'']))) idlePage
     = (Some (lit ''k''), False)
   \<and> apiKeyInputEl_disabled (beginRequest (clearApiKeyHighlight idlePage))
   \<and> fst (generate (exampleEnv (Some (lit ''k'')) None (Resolves (Some [lit ''AAAA'']))) idlePage)
       = Inr ()
   \<and> apiKeyInputEl_disabled
        (snd (generate (exampleEnv (Some (lit ''k'')) None (Resolves (Some [lit ''AAAA'']))) idlePage))"
  by (simp add: example_defs generate_defs)

text \<open>
  C6, amended. Whenever \<open>generate\<close> gets as far as the request, it ends, on every
  path, with the busy indicator hidden, with the generate button, the prompt, the two
  selectors, the download button, the clear-history button and the toggle enabled,
  and with the key input enabled exactly when the toggle is on. This holds when the
  request succeeds, when it fails with any message, and when the key dialog opened
  after a failure is itself rejected.
\<close>

theorem generate_reenables_controls:
  assumes "resolveActiveKey e s = (Some key, isUsingCustomKey)" and "truthy key"
  shows "\<not> generateButton_disabled (snd (generate e s))
       \<and> \<not> promptEl_disabled (snd (generate e s))
       \<and> \<not> imageSizeSelectEl_disabled (snd (generate e s))
       \<and> \<not> aspectRatioSelectEl_disabled (snd (generate e s))
       \<and> \<not> downloadButton_disabled (snd (generate e s))
       \<and> \<not> clearHistoryButton_disabled (snd (generate e s))
       \<and> \<not> useCustomApiKeyCheckbox_disabled (snd (generate e s))
       \<and> apiKeyInputEl_disabled (snd (generate e s)) = (\<not> useCustomApiKey s)
       \<and> loadingSpinner_display (snd (generate e s)) = DisplayNone"
proof -
  have "useCustomApiKey (snd (tryGenerate e key isUsingCustomKey (beginRequest (clearApiKeyHighlight s))))
      = useCustomApiKey s"
    by (simp add: frame_tryGenerate frame_beginRequest frame_clearApiKeyHighlight)
  then show ?thesis
    by (simp add: generate_request [OF assms] setControlsDisabled_def)
qed

theorem generate_reenables_controls_witness:
  "resolveActiveKey (exampleEnv (Some (lit ''k'')) (Some (Inl NotAnError)) (Rejects quotaError)) idlePage
     = (Some (lit ''k''), False)
   \<and> truthy (lit ''k'')
   \<and> fst (generate (exampleEnv (Some (lit ''k'')) (Some (Inl NotAnError)) (Rejects quotaError)) idlePage)
       = Inl NotAnError
   \<and> effects (snd (generate (exampleEnv (Some (lit ''k'')) (Some (Inl NotAnError)) (Rejects quotaError)) idlePage))
       = [GenerateImages (lit ''a cat'') (lit ''k'') Size_1K Ratio_1_1,
          ConsoleError (lit ''Image generation failed:''), OpenSelectKey]
   \<and> \<not> generateButton_disabled
        (snd (generate (exampleEnv (Some (lit ''k'')) (Some (Inl NotAnError)) (Rejects quotaError)) idlePage))
   \<and> \<not> useCustomApiKeyCheckbox_disabled
        (snd (generate (exampleEnv (Some (lit ''k'')) (Some (Inl NotAnError)) (Rejects quotaError)) idlePage))
   \<and> apiKeyInputEl_disabled
        (snd (generate (exampleEnv (Some (lit ''k'')) (Some (Inl NotAnError)) (Rejects quotaError)) idlePage))
   \<and> loadingSpinner_display
        (snd (generate (exampleEnv (Some (lit ''k'')) (Some (Inl NotAnError)) (Rejects quotaError)) idlePage))
       = DisplayNone
   \<and> resolveActiveKey (exampleEnv None None (Resolves (Some [lit ''AAAA'']))) (customKeyPage (lit ''k''))
       = (Some (lit ''k''), True)
   \<and> \<not> generateButton_disabled
        (snd (generate (exampleEnv None None (Resolves (Some [lit ''AAAA'']))) (customKeyPage (lit ''k''))))
   \<and> \<not> apiKeyInputEl_disabled
        (snd (generate (exampleEnv None None (Resolves (Some [lit ''AAAA'']))) (customKeyPage (lit ''k''))))
   \<and> loadingSpinner_display
        (snd (generate (exampleEnv None None (Resolves (Some [lit ''AAAA'']))) (customKeyPage (lit ''k''))))
       = DisplayNone"
proof -
  have r1: "resolveActiveKey (exampleEnv (Some (lit ''k'')) (Some (Inl NotAnError)) (Rejects quotaError)) idlePage
     = (Some (lit ''k''), False)"
    by (simp add: example_defs resolveActiveKey_def)
  have r2: "resolveActiveKey (exampleEnv None None (Resolves (Some [lit ''AAAA'']))) (customKeyPage (lit ''k''))
     = (Some (lit ''k''), True)"
    by (simp add: example_defs resolveActiveKey_def truthy_def trim_def isWhiteSpace_def lit_def)
  have k: "truthy (lit ''k'')"
    by (simp add: truthy_def lit_def)
  have u1: "\<not> useCustomApiKey idlePage"
    by (simp add: idlePage_def startPage_def)
  have u2: "useCustomApiKey (customKeyPage (lit ''k''))"
    by (simp add: customKeyPage_def)
  have rejected:
    "fst (generate (exampleEnv (Some (lit ''k'')) (Some (Inl NotAnError)) (Rejects quotaError)) idlePage)
       = Inl NotAnError"
    "effects (snd (generate (exampleEnv (Some (lit ''k'')) (Some (Inl NotAnError)) (Rejects quotaError)) idlePage))
       = [GenerateImages (lit ''a cat'') (lit ''k'') Size_1K Ratio_1_1,
          ConsoleError (lit ''Image generation failed:''), OpenSelectKey]"
    by (simp_all add: example_defs generate_defs)
  show ?thesis
    using generate_reenables_controls [OF r1 k] generate_reenables_controls [OF r2 k]
      r1 r2 k u1 u2 rejected
    by simp
qed

text \<open>
  C7. Saving a history and then starting the script again on the same store gives
  the same entries in the same order, each with its image reference, prompt and
  timestamp, provided the store takes the write and
  answers the read, and \<open>JSON.parse\<close> returns the history from the text
  \<open>JSON.stringify\<close> made of it, a text that is not empty. The codec of this
  development is such a pair for every history (\<open>parseHistory_stringifyHistory\<close>,
  \<open>stringifyHistory_truthy\<close>).
\<close>

theorem saved_history_is_loaded:
  assumes "\<not> setItem_throws (localStorage s)" and "\<not> getItem_throws (localStorage s)"
    and "JSON_parse e (JSON_stringify e (imageHistory s)) = Inr (imageHistory s)"
    and "truthy (JSON_stringify e (imageHistory s))"
  shows "imageHistory (loadHistory e (startPage (localStorage (saveHistory e s)))) = imageHistory s
       \<and> imageHistory (initialize e (startPage (localStorage (saveHistory e s)))) = imageHistory s"
  using load_after_save [OF assms] by (simp add: initialize_imageHistory)

theorem saved_history_is_loaded_witness:
  "imageHistory
     (initialize (exampleEnv None None (Resolves None))
        (startPage (localStorage
           (saveHistory (exampleEnv None None (Resolves None)) (idlePage\<lparr>imageHistory := exampleHistory\<rparr>)))))
     = exampleHistory
   \<and> length exampleHistory = 2"
proof -
  have st: "\<not> setItem_throws (localStorage (idlePage\<lparr>imageHistory := exampleHistory\<rparr>))"
    "\<not> getItem_throws (localStorage (idlePage\<lparr>imageHistory := exampleHistory\<rparr>))"
    by (simp_all add: idlePage_def startPage_def emptyStorage_def)
  have rt: "JSON_parse (exampleEnv None None (Resolves None))
      (JSON_stringify (exampleEnv None None (Resolves None))
         (imageHistory (idlePage\<lparr>imageHistory := exampleHistory\<rparr>)))
      = Inr (imageHistory (idlePage\<lparr>imageHistory := exampleHistory\<rparr>))"
    by (simp add: exampleEnv_def parseHistory_stringifyHistory)
  have ne: "truthy (JSON_stringify (exampleEnv None None (Resolves None))
      (imageHistory (idlePage\<lparr>imageHistory := exampleHistory\<rparr>)))"
    by (simp add: exampleEnv_def stringifyHistory_truthy)
  show ?thesis
    using saved_history_is_loaded [OF st rt ne] by (simp add: exampleHistory_def)
qed

text \<open>
  C8. \<open>setControlsDisabled(false)\<close> sets the \<open>disabled\<close> state of the key input to
  the negation of the toggle, and enables the other seven controls. So an attempt
  that reaches the request ends with the key input disabled whenever the toggle is
  off, while the other controls are enabled.
\<close>

theorem setControlsDisabled_False_key_input:
  "apiKeyInputEl_disabled (setControlsDisabled False s) = (\<not> useCustomApiKey s)
   \<and> \<not> generateButton_disabled (setControlsDisabled False s)
   \<and> \<not> promptEl_disabled (setControlsDisabled False s)
   \<and> \<not> imageSizeSelectEl_disabled (setControlsDisabled False s)
   \<and> \<not> aspectRatioSelectEl_disabled (setControlsDisabled False s)
   \<and> \<not> downloadButton_disabled (setControlsDisabled False s)
   \<and> \<not> clearHistoryButton_disabled (setControlsDisabled False s)
   \<and> \<not> useCustomApiKeyCheckbox_disabled (setControlsDisabled False s)
   \<and> (\<not> useCustomApiKey s \<and> \<not> keyMissing (fst (resolveActiveKey e s))
        \<longrightarrow> apiKeyInputEl_disabled (snd (generate e s))
          \<and> \<not> generateButton_disabled (snd (generate e s)))"
proof -
  have "apiKeyInputEl_disabled (snd (generate e s)) \<and> \<not> generateButton_disabled (snd (generate e s))"
    if off: "\<not> useCustomApiKey s" and key: "\<not> keyMissing (fst (resolveActiveKey e s))"
  proof -
    obtain k m where r: "resolveActiveKey e s = (k, m)"
      by (cases "resolveActiveKey e s")
    with key obtain v where "k = Some v" and t: "truthy v"
      by (auto simp: not_keyMissing)
    with r have r': "resolveActiveKey e s = (Some v, m)" by simp
    have "useCustomApiKey (snd (tryGenerate e v m (beginRequest (clearApiKeyHighlight s))))
        = useCustomApiKey s"
      by (simp add: frame_tryGenerate frame_beginRequest frame_clearApiKeyHighlight)
    with off show ?thesis
      by (simp add: generate_request [OF r' t] setControlsDisabled_def)
  qed
  then show ?thesis
    by (simp add: setControlsDisabled_def)
qed

theorem setControlsDisabled_False_key_input_witness:
  "\<not> useCustomApiKey idlePage
   \<and> \<not> keyMissing (fst (resolveActiveKey (exampleEnv (Some (lit ''k'')) None (Resolves None)) idlePage))
   \<and> apiKeyInputEl_disabled (snd (generate (exampleEnv (Some (lit ''k'')) None (Resolves None)) idlePage))
   \<and> \<not> generateButton_disabled (snd (generate (exampleEnv (Some (lit ''k'')) None (Resolves None)) idlePage))"
proof -
  have u: "\<not> useCustomApiKey idlePage"
    by (simp add: idlePage_def startPage_def)
  have k: "\<not> keyMissing (fst (resolveActiveKey (exampleEnv (Some (lit ''k'')) None (Resolves None)) idlePage))"
    by (simp add: example_defs resolveActiveKey_def keyMissing_def truthy_def lit_def)
  show ?thesis
    using setControlsDisabled_False_key_input
        [of idlePage "exampleEnv (Some (lit ''k'')) None (Resolves None)"] u k
    by simp
qed

text \<open>
  C9. An attempt that reaches the request runs it on a page whose image is hidden and
  whose download link is \<open>null\<close>. When the request brings no image, neither is
  restored: the attempt ends with the image hidden and no download link, whatever
  they were before, and a click on the download button then only reports that no
  image is available.
\<close>

theorem generate_failure_loses_download:
  assumes "resolveActiveKey e s = (Some key, isUsingCustomKey)" and "truthy key"
    and "\<forall>b bs. generateImages e (prompt s) key (imageSize s) (aspectRatio s) \<noteq> Resolves (Some (b # bs))"
  shows "downloadLink (beginRequest (clearApiKeyHighlight s)) = None
       \<and> outputImage_display (beginRequest (clearApiKeyHighlight s)) = DisplayNone
       \<and> downloadLink (snd (generate e s)) = None
       \<and> outputImage_display (snd (generate e s)) = DisplayNone
       \<and> downloadButton_click (snd (generate e s))
           = (snd (generate e s))\<lparr>statusEl := errorSpan (lit ''No image available for download.'')\<rparr>"
proof -
  obtain t where g: "snd (generate e s) =
    setControlsDisabled False
      (snd (handleFailure e isUsingCustomKey t
         (log_effect (GenerateImages (prompt s) key (imageSize s) (aspectRatio s))
            (beginRequest (clearApiKeyHighlight s)))))"
    using generate_failed [OF assms] by blast
  have link: "downloadLink (snd (generate e s)) = None"
    and img: "outputImage_display (snd (generate e s)) = DisplayNone"
    by (simp_all add: g setControlsDisabled_keeps_reset failure_keeps_reset log_effect_keeps_reset
        beginRequest_resets)
  have "downloadButton_click (snd (generate e s))
      = (snd (generate e s))\<lparr>statusEl := errorSpan (lit ''No image available for download.'')\<rparr>"
    using link by (simp add: downloadButton_click_def showStatusError_def)
  with link img show ?thesis
    by (simp add: beginRequest_resets)
qed

theorem generate_failure_loses_download_witness:
  "downloadLink (idlePage\<lparr>downloadLink := Some (lit ''data:image/jpeg;base64,AAAA''),
       outputImage_display := DisplayBlock\<rparr>) = Some (lit ''data:image/jpeg;base64,AAAA'')
   \<and> downloadLink (snd (generate (exampleEnv (Some (lit ''k'')) None (Resolves (Some [])))
        (idlePage\<lparr>downloadLink := Some (lit ''data:image/jpeg;base64,AAAA''),
           outputImage_display := DisplayBlock\<rparr>))) = None
   \<and> outputImage_display (snd (generate (exampleEnv (Some (lit ''k'')) None (Resolves (Some [])))
        (idlePage\<lparr>downloadLink := Some (lit ''data:image/jpeg;base64,AAAA''),
           outputImage_display := DisplayBlock\<rparr>))) = DisplayNone
   \<and> effects (downloadButton_click (snd (generate (exampleEnv (Some (lit ''k'')) None (Resolves (Some [])))
        (idlePage\<lparr>downloadLink := Some (lit ''data:image/jpeg;base64,AAAA''),
           outputImage_display := DisplayBlock\<rparr>))))
       = effects (snd (generate (exampleEnv (Some (lit ''k'')) None (Resolves (Some [])))
        (idlePage\<lparr>downloadLink := Some (lit ''data:image/jpeg;base64,AAAA''),
           outputImage_display := DisplayBlock\<rparr>)))"
proof -
  have r: "resolveActiveKey (exampleEnv (Some (lit ''k'')) None (Resolves (Some [])))
        (idlePage\<lparr>downloadLink := Some (lit ''data:image/jpeg;base64,AAAA''),
           outputImage_display := DisplayBlock\<rparr>) = (Some (lit ''k''), False)"
    by (simp add: example_defs resolveActiveKey_def)
  have k: "truthy (lit ''k'')"
    by (simp add: truthy_def lit_def)
  have g: "\<forall>b bs. generateImages (exampleEnv (Some (lit ''k'')) None (Resolves (Some []))) p (lit ''k'') sz ar
      \<noteq> Resolves (Some (b # bs))" for p sz ar
    by (simp add: exampleEnv_def)
  show ?thesis
    using generate_failure_loses_download [OF r k g]
    by simp
qed

text \<open>
  C10. When the response carries one image or more, \<open>generateImage\<close> shows the first
  one and makes it the download target, whatever follows it in the list; when the
  list is absent or empty it throws the error that no images were generated, and
  shows nothing.
\<close>

theorem generateImage_first_image:
  "(generateImages e p k sz r = Resolves (Some (b # bs)) \<longrightarrow>
      generateImage e p k sz r s =
        (Inr (), (log_effect (GenerateImages p k sz r) s)
           \<lparr>outputImage_src := lit ''data:image/jpeg;base64,'' @ b,
            outputImage_display := DisplayBlock,
            downloadButton_display := DisplayBlock,
            downloadLink := Some (lit ''data:image/jpeg;base64,'' @ b)\<rparr>))
   \<and> (generateImages e p k sz r = Resolves None \<or> generateImages e p k sz r = Resolves (Some []) \<longrightarrow>
      generateImage e p k sz r s =
        (Inl (Error (lit ''No images were generated. The prompt may have been blocked.'')),
         log_effect (GenerateImages p k sz r) s))"
  by (auto simp: generateImage_def Let_def)

theorem generateImage_first_image_witness:
  "downloadLink (snd (generateImage (exampleEnv None None (Resolves (Some [lit ''AAAA'', lit ''BBBB''])))
      (lit ''a cat'') (lit ''k'') Size_1K Ratio_1_1 idlePage))
     = Some (lit ''data:image/jpeg;base64,AAAA'')
   \<and> outputImage_src (snd (generateImage (exampleEnv None None (Resolves (Some [lit ''AAAA'', lit ''BBBB''])))
      (lit ''a cat'') (lit ''k'') Size_1K Ratio_1_1 idlePage))
     = lit ''data:image/jpeg;base64,AAAA''
   \<and> fst (generateImage (exampleEnv None None (Resolves (Some [])))
      (lit ''a cat'') (lit ''k'') Size_1K Ratio_1_1 idlePage)
     = Inl (Error (lit ''No images were generated. The prompt may have been blocked.''))
   \<and> fst (generateImage (exampleEnv None None (Resolves None))
      (lit ''a cat'') (lit ''k'') Size_1K Ratio_1_1 idlePage)
     = Inl (Error (lit ''No images were generated. The prompt may have been blocked.''))"
proof -
  have g: "generateImages (exampleEnv None None resp) p k sz r = resp" for resp p k sz r
    by (simp add: exampleEnv_def)
  show ?thesis
    using generateImage_first_image
        [of "exampleEnv None None (Resolves (Some [lit ''AAAA'', lit ''BBBB'']))"
          "lit ''a cat''" "lit ''k''" Size_1K Ratio_1_1 "lit ''AAAA''" "[lit ''BBBB'']" idlePage]
      generateImage_first_image
        [of "exampleEnv None None (Resolves (Some []))"
          "lit ''a cat''" "lit ''k''" Size_1K Ratio_1_1 b bs idlePage]
      generateImage_first_image
        [of "exampleEnv None None (Resolves None)"
          "lit ''a cat''" "lit ''k''" Size_1K Ratio_1_1 b bs idlePage]
    by (simp add: g lit_def)
qed

end
